theory Spec2Isabelle
  imports Complex_Main "HOL-Library.Char_ord" "HOL-Library.List_Lexorder" "HOL-Library.Multiset"
begin

text \<open>
  A shallow embedding of the repository's code-search core: the chunkers, the cosine
  similarity, the fusion of the three search signals, the two index classes
  (\<open>AdvancedCodebaseIndex\<close> over chunks and symbols, \<open>CodebaseIndexService\<close> over whole
  files) with their SQLite tables, the indexing passes and the queries.

  Conventions. Finite JavaScript numbers are real numbers (rounding is not modelled).
  A method that throws returns \<open>Inl\<close> of an error. Both services are taken after
  \<open>initialize\<close>: the database is open and the tables exist. What the code calls into
  (git, the file system, the embedding model, the FTS5 engine, regular expressions,
  \<open>path.extname\<close>, the clock, a database statement that fails) is a parameter. A
  \<open>SELECT\<close> without \<open>ORDER BY\<close> returns the rows in table order.
\<close>

section \<open>JavaScript values used by the index\<close>

subsection \<open>Strings\<close>

text \<open>
  Strings are lists of characters. The source only splits, joins, slices and searches them;
  \<open>toLowerCase\<close> is modelled on the ASCII letters.
\<close>

definition newline :: char where
  "newline = CHR 0x0A"

text \<open>\<^verbatim>\<open>content.split('\n')\<close>: always at least one piece, the empty string gives \<open>['']\<close>.\<close>

fun split_newline :: "string \<Rightarrow> string list" where
  "split_newline [] = [[]]"
| "split_newline (c # cs) =
     (if c = newline then [] # split_newline cs
      else (case split_newline cs of
              [] \<Rightarrow> [[c]]
            | l # ls \<Rightarrow> (c # l) # ls))"

text \<open>\<^verbatim>\<open>lines.join('\n')\<close>.\<close>

fun join_newline :: "string list \<Rightarrow> string" where
  "join_newline [] = []"
| "join_newline [l] = l"
| "join_newline (l # ls) = l @ newline # join_newline ls"

text \<open>\<^verbatim>\<open>xs.slice(i, j)\<close> for \<open>0 \<le> i\<close>, \<open>0 \<le> j\<close>: clipped to the array.\<close>

definition slice :: "'a list \<Rightarrow> nat \<Rightarrow> nat \<Rightarrow> 'a list" where
  "slice xs i j = take (j - i) (drop i xs)"

text \<open>Decimal rendering of a line number inside a template string.\<close>

definition digit_char :: "nat \<Rightarrow> char" where
  "digit_char d = ''0123456789'' ! d"

function string_of_nat :: "nat \<Rightarrow> string" where
  "string_of_nat n = (if n < 10 then [digit_char n]
                      else string_of_nat (n div 10) @ [digit_char (n mod 10)])"
  by pat_completeness auto
termination
  by (relation "measure (\<lambda>n. n)") auto

declare string_of_nat.simps [simp del]

definition upper_letters :: string where
  "upper_letters = ''ABCDEFGHIJKLMNOPQRSTUVWXYZ''"

definition lower_letters :: string where
  "lower_letters = ''abcdefghijklmnopqrstuvwxyz''"

definition lower_char :: "char \<Rightarrow> char" where
  "lower_char c = (case map_of (zip upper_letters lower_letters) c of
                     Some l \<Rightarrow> l
                   | None \<Rightarrow> c)"

definition toLowerCase :: "string \<Rightarrow> string" where
  "toLowerCase s = map lower_char s"

fun startsWith :: "string \<Rightarrow> string \<Rightarrow> bool" where
  "startsWith s [] = True"
| "startsWith [] (p # ps) = False"
| "startsWith (c # cs) (p # ps) = (c = p \<and> startsWith cs ps)"

text \<open>\<^verbatim>\<open>s.includes(sub)\<close>: \<open>sub\<close> occurs in \<open>s\<close> as a contiguous substring.\<close>

fun str_includes :: "string \<Rightarrow> string \<Rightarrow> bool" where
  "str_includes [] sub = (sub = [])"
| "str_includes (c # cs) sub = (startsWith (c # cs) sub \<or> str_includes cs sub)"

definition endsWith :: "string \<Rightarrow> string \<Rightarrow> bool" where
  "endsWith s suf = startsWith (rev s) (rev suf)"

text \<open>\<^verbatim>\<open>s.trim()\<close>, on the ASCII white space characters.\<close>

definition is_space :: "char \<Rightarrow> bool" where
  "is_space c = (c \<in> set [CHR 0x09, CHR 0x0A, CHR 0x0B, CHR 0x0C, CHR 0x0D, CHR '' ''])"

definition trim :: "string \<Rightarrow> string" where
  "trim s = rev (dropWhile is_space (rev (dropWhile is_space s)))"

subsection \<open>Numbers\<close>

text \<open>
  A JavaScript number is a finite value, an infinity or NaN. Finite values are modelled as
  reals (rounding is not modelled); the special values are kept because a division by zero
  produces them instead of raising.
\<close>

datatype jsnum = Fin real | PosInf | NegInf | NaN

definition js_div :: "real \<Rightarrow> real \<Rightarrow> jsnum" where
  "js_div x y = (if y \<noteq> 0 then Fin (x / y)
                 else if x = 0 then NaN
                 else if x > 0 then PosInf else NegInf)"

fun js_add :: "jsnum \<Rightarrow> real \<Rightarrow> jsnum" where
  "js_add (Fin x) y = Fin (x + y)"
| "js_add PosInf y = PosInf"
| "js_add NegInf y = NegInf"
| "js_add NaN y = NaN"

text \<open>\<^verbatim>\<open>x > c\<close>: every comparison with NaN is false.\<close>

fun js_gt :: "jsnum \<Rightarrow> real \<Rightarrow> bool" where
  "js_gt (Fin x) c = (x > c)"
| "js_gt PosInf c = True"
| "js_gt NegInf c = False"
| "js_gt NaN c = False"

section \<open>The advanced index: chunks and symbols\<close>

record symbol =
  s_name :: string
  s_type :: string
  s_line :: nat
  s_column :: nat
  s_endLine :: nat
  s_endColumn :: nat
  s_context :: string
  s_file :: string
  s_language :: string

record chunk =
  c_id :: string
  c_content :: string
  c_type :: string
  c_symbols :: "symbol list"
  c_startLine :: nat
  c_endLine :: nat
  c_file :: string
  c_language :: string

text \<open>
  The patterns of the chunkers, in the order the source lists them. The pattern engine
  (\<^verbatim>\<open>RegExp.prototype.exec\<close> with the \<open>g\<close> flag, called until it returns null) and
  \<^verbatim>\<open>path.extname\<close> belong to the platform; they are parameters of the model.
\<close>

datatype pattern =
  HtmlTitle | HtmlHeading | HtmlHeader | HtmlNav | HtmlScript
  | JsFunction | JsClass | JsConst | JsImport
  | MdHeader

record re_match =
  m_index :: nat
  m_text :: string
  m_group1 :: "string option"

record platform =
  extname :: "string \<Rightarrow> string"
  exec_all :: "pattern \<Rightarrow> string \<Rightarrow> re_match list"

definition langMap :: "(string \<times> string) list" where
  "langMap =
    [(''.html'', ''html''), (''.htm'', ''html''),
     (''.js'', ''javascript''), (''.jsx'', ''javascript''),
     (''.ts'', ''typescript''), (''.tsx'', ''typescript''),
     (''.css'', ''css''), (''.scss'', ''css''),
     (''.md'', ''markdown''), (''.json'', ''json''),
     (''.yml'', ''yaml''), (''.yaml'', ''yaml'')]"

definition detectLanguage :: "platform \<Rightarrow> string \<Rightarrow> string" where
  "detectLanguage P filePath =
     (case map_of langMap (toLowerCase (extname P filePath)) of
        Some l \<Rightarrow> l
      | None \<Rightarrow> ''text'')"

subsection \<open>The generic fallback chunker\<close>

definition chunkSize :: nat where
  "chunkSize = 50"

definition generic_chunk :: "platform \<Rightarrow> string \<Rightarrow> string list \<Rightarrow> nat \<Rightarrow> chunk" where
  "generic_chunk P filePath lines i =
     (let endLine = min (i + chunkSize) (length lines);
          chunkContent = join_newline (slice lines i endLine)
      in \<lparr> c_id = filePath @ '':'' @ string_of_nat (i + 1) @ ''-'' @ string_of_nat endLine @ '':block'',
           c_content = chunkContent,
           c_type = ''block'',
           c_symbols = [],
           c_startLine = i + 1,
           c_endLine = endLine,
           c_file = filePath,
           c_language = detectLanguage P filePath \<rparr>)"

text \<open>The \<^verbatim>\<open>for (let i = 0; i < lines.length; i += chunkSize)\<close> loop, from index \<open>i\<close>.\<close>

function generic_loop :: "platform \<Rightarrow> string \<Rightarrow> string list \<Rightarrow> nat \<Rightarrow> chunk list \<Rightarrow> chunk list" where
  "generic_loop P filePath lines i chunks =
     (if i < length lines
      then generic_loop P filePath lines (i + chunkSize) (chunks @ [generic_chunk P filePath lines i])
      else chunks)"
  by pat_completeness auto
termination
  by (relation "measure (\<lambda>(P, filePath, lines, i, chunks). length lines - i)")
     (auto simp: chunkSize_def)

declare generic_loop.simps [simp del]

definition parseGenericChunks :: "platform \<Rightarrow> string \<Rightarrow> string \<Rightarrow> string list \<Rightarrow> chunk list" where
  "parseGenericChunks P content filePath lines = generic_loop P filePath lines 0 []"

subsection \<open>The pattern-based chunkers\<close>

text \<open>\<^verbatim>\<open>content.substring(0, index).split('\n').length\<close>: the line a position is on.\<close>

definition line_of :: "string \<Rightarrow> nat \<Rightarrow> nat" where
  "line_of content index = length (split_newline (take index content))"

definition html_chunk :: "string \<Rightarrow> string \<Rightarrow> string \<Rightarrow> string \<Rightarrow> re_match \<Rightarrow> chunk" where
  "html_chunk content filePath type symbolType m =
     (let matchContent = m_text m;
          innerText = (case m_group1 m of None \<Rightarrow> [] | Some g \<Rightarrow> trim g);
          startLine = line_of content (m_index m);
          endLine = startLine + length (split_newline matchContent) - 1;
          symbols = (if innerText \<noteq> []
                     then [\<lparr> s_name = take 50 innerText, s_type = symbolType,
                             s_line = startLine, s_column = 0, s_endLine = endLine, s_endColumn = 0,
                             s_context = matchContent, s_file = filePath, s_language = ''html'' \<rparr>]
                     else [])
      in \<lparr> c_id = filePath @ '':'' @ string_of_nat startLine @ ''-'' @ string_of_nat endLine @ '':'' @ type,
           c_content = matchContent,
           c_type = type,
           c_symbols = symbols,
           c_startLine = startLine,
           c_endLine = endLine,
           c_file = filePath,
           c_language = ''html'' \<rparr>)"

definition elementPatterns :: "(pattern \<times> string \<times> string) list" where
  "elementPatterns =
     [(HtmlTitle, ''element'', ''element''),
      (HtmlHeading, ''element'', ''element''),
      (HtmlHeader, ''element'', ''element''),
      (HtmlNav, ''element'', ''element''),
      (HtmlScript, ''block'', ''function'')]"

definition parseHTMLChunks :: "platform \<Rightarrow> string \<Rightarrow> string \<Rightarrow> string list \<Rightarrow> chunk list" where
  "parseHTMLChunks P content filePath lines =
     (let chunks = concat (map (\<lambda>(pat, type, symbolType).
                       map (html_chunk content filePath type symbolType) (exec_all P pat content))
                     elementPatterns)
      in if chunks = [] then parseGenericChunks P content filePath lines else chunks)"

text \<open>\<^verbatim>\<open>match[1] || match[0]\<close>: an undefined or empty group gives the whole match.\<close>

definition js_chunk :: "string \<Rightarrow> string \<Rightarrow> string list \<Rightarrow> string \<Rightarrow> re_match \<Rightarrow> chunk" where
  "js_chunk content filePath lines type m =
     (let startLine = line_of content (m_index m);
          symbol = (case m_group1 m of None \<Rightarrow> m_text m
                    | Some g \<Rightarrow> if g = [] then m_text m else g);
          endLine = startLine + 10;
          chunkContent = join_newline (slice lines (startLine - 1) endLine)
      in \<lparr> c_id = filePath @ '':'' @ string_of_nat startLine @ ''-'' @ string_of_nat endLine @ '':'' @ type,
           c_content = chunkContent,
           c_type = ''symbol'',
           c_symbols = [\<lparr> s_name = symbol, s_type = type,
                          s_line = startLine, s_column = m_index m, s_endLine = endLine, s_endColumn = 0,
                          s_context = chunkContent, s_file = filePath, s_language = ''javascript'' \<rparr>],
           c_startLine = startLine,
           c_endLine = endLine,
           c_file = filePath,
           c_language = ''javascript'' \<rparr>)"

definition jsPatterns :: "(pattern \<times> string) list" where
  "jsPatterns =
     [(JsFunction, ''function''), (JsClass, ''class''),
      (JsConst, ''variable''), (JsImport, ''import'')]"

definition parseJSChunks :: "platform \<Rightarrow> string \<Rightarrow> string \<Rightarrow> string list \<Rightarrow> chunk list" where
  "parseJSChunks P content filePath lines =
     (let chunks = concat (map (\<lambda>(pat, type).
                       map (js_chunk content filePath lines type) (exec_all P pat content))
                     jsPatterns)
      in if chunks \<noteq> [] then chunks else parseGenericChunks P content filePath lines)"

text \<open>
  A Markdown section runs from its header to the next header match, or to the end of the
  text. The header pattern's group is not optional, so \<^verbatim>\<open>match[1]\<close> is defined on
  every match.
\<close>

definition md_chunk :: "string \<Rightarrow> string \<Rightarrow> re_match \<Rightarrow> nat \<Rightarrow> chunk" where
  "md_chunk content filePath m endPos =
     (let startLine = line_of content (m_index m);
          headerText = (case m_group1 m of None \<Rightarrow> [] | Some g \<Rightarrow> g);
          sectionContent = slice content (m_index m) endPos;
          endLine = startLine + length (split_newline sectionContent) - 1
      in \<lparr> c_id = filePath @ '':'' @ string_of_nat startLine @ ''-'' @ string_of_nat endLine @ '':section'',
           c_content = sectionContent,
           c_type = ''block'',
           c_symbols = [\<lparr> s_name = headerText, s_type = ''element'',
                          s_line = startLine, s_column = 0, s_endLine = startLine,
                          s_endColumn = length headerText,
                          s_context = take 200 sectionContent, s_file = filePath,
                          s_language = ''markdown'' \<rparr>],
           c_startLine = startLine,
           c_endLine = endLine,
           c_file = filePath,
           c_language = ''markdown'' \<rparr>)"

fun md_sections :: "string \<Rightarrow> string \<Rightarrow> re_match list \<Rightarrow> chunk list" where
  "md_sections content filePath [] = []"
| "md_sections content filePath [m] = [md_chunk content filePath m (length content)]"
| "md_sections content filePath (m # nextMatch # ms) =
     md_chunk content filePath m (m_index nextMatch)
       # md_sections content filePath (nextMatch # ms)"

definition parseMarkdownChunks :: "platform \<Rightarrow> string \<Rightarrow> string \<Rightarrow> string list \<Rightarrow> chunk list" where
  "parseMarkdownChunks P content filePath lines =
     (let chunks = md_sections content filePath (exec_all P MdHeader content)
      in if chunks \<noteq> [] then chunks else parseGenericChunks P content filePath lines)"

definition parseFileIntoChunks :: "platform \<Rightarrow> string \<Rightarrow> string \<Rightarrow> string \<Rightarrow> chunk list" where
  "parseFileIntoChunks P content filePath language =
     (let lines = split_newline content
      in if language = ''html'' then parseHTMLChunks P content filePath lines
         else if language = ''javascript'' \<or> language = ''typescript''
           then parseJSChunks P content filePath lines
         else if language = ''markdown'' then parseMarkdownChunks P content filePath lines
         else parseGenericChunks P content filePath lines)"

text \<open>
  What the model asks of the pattern engine: a reported match is an occurrence of its own,
  non-empty text in the searched string. Every pattern of the source contains a literal
  character, so none of them matches the empty string.
\<close>

definition engine_ok :: "platform \<Rightarrow> bool" where
  "engine_ok P =
     (\<forall>pat content. \<forall>m \<in> set (exec_all P pat content).
        m_text m \<noteq> [] \<and> slice content (m_index m) (m_index m + length (m_text m)) = m_text m)"



text \<open>
  A platform for concrete evaluations: the extension is the part of the name from its
  first dot on, and no pattern matches (as in a text without markup, declarations or
  headers).
\<close>

definition plain_platform :: platform where
  "plain_platform =
     \<lparr> extname = (\<lambda>p. dropWhile (\<lambda>c. c \<noteq> CHR ''.'') p),
       exec_all = (\<lambda>pat content. []) \<rparr>"

section \<open>Cosine similarity\<close>

text \<open>
  The same function stands in both index classes. The loop runs over the indices of \<open>a\<close>;
  it is only entered when both arrays have the same length, so every read is in range.
\<close>

function cosine_loop :: "real list \<Rightarrow> real list \<Rightarrow> nat \<Rightarrow> real \<times> real \<times> real \<Rightarrow> real \<times> real \<times> real" where
  "cosine_loop a b i (dotProduct, normA, normB) =
     (if i < length a
      then cosine_loop a b (i + 1)
             (dotProduct + a ! i * b ! i, normA + a ! i * a ! i, normB + b ! i * b ! i)
      else (dotProduct, normA, normB))"
  by pat_completeness auto
termination
  by (relation "measure (\<lambda>(a, b, i, acc). length a - i)") auto

declare cosine_loop.simps [simp del]

definition cosineSimilarity :: "real list \<Rightarrow> real list \<Rightarrow> jsnum" where
  "cosineSimilarity a b =
     (if length a \<noteq> length b then Fin 0
      else (case cosine_loop a b 0 (0, 0, 0) of
              (dotProduct, normA, normB) \<Rightarrow> js_div dotProduct (sqrt normA * sqrt normB)))"

text \<open>The quantities of the specification's formula.\<close>

definition dot :: "real list \<Rightarrow> real list \<Rightarrow> real" where
  "dot a b = sum_list (map2 (*) a b)"

definition vec_norm :: "real list \<Rightarrow> real" where
  "vec_norm a = sqrt (sum_list (map (\<lambda>x. x * x) a))"

section \<open>Fusion and re-ranking\<close>

text \<open>
  A JavaScript \<open>Map\<close> keeps its keys in insertion order: it is an association list,
  \<open>get\<close> reads the entry of a key and \<open>set\<close> replaces it in place or appends a new one.
  A \<open>Set\<close> built from an array keeps the first occurrence of every element.
\<close>

type_synonym ('k, 'v) js_map = "('k \<times> 'v) list"

definition keys :: "('k, 'v) js_map \<Rightarrow> 'k list" where
  "keys m = map fst m"

definition map_get :: "('k, 'v) js_map \<Rightarrow> 'k \<Rightarrow> 'v option" where
  "map_get m k = map_of m k"

fun map_set :: "('k, 'v) js_map \<Rightarrow> 'k \<Rightarrow> 'v \<Rightarrow> ('k, 'v) js_map" where
  "map_set [] k v = [(k, v)]"
| "map_set ((k', v') # m) k v = (if k' = k then (k, v) # m else (k', v') # map_set m k v)"

definition set_add :: "'a list \<Rightarrow> 'a \<Rightarrow> 'a list" where
  "set_add s x = (if x \<in> set s then s else s @ [x])"

definition new_Set :: "'a list \<Rightarrow> 'a list" where
  "new_Set xs = foldl set_add [] xs"

text \<open>\<^verbatim>\<open>xs.join(', ')\<close>.\<close>

fun join_comma :: "string list \<Rightarrow> string" where
  "join_comma [] = []"
| "join_comma [l] = l"
| "join_comma (l # ls) = l @ '', '' @ join_comma ls"

record BM25Score =
  score :: real
  termMatches :: "string list"

text \<open>The \<open>chunk\<close> field of a result is created as the empty object \<^verbatim>\<open>{} as Chunk\<close>.\<close>

datatype chunk_obj = EmptyObject | ChunkObject chunk

record SearchResult =
  chunk :: chunk_obj
  lexicalScore :: real
  vectorScore :: real
  structuralScore :: real
  fusedScore :: real
  reason :: string

definition normalizeScore :: "real \<Rightarrow> real \<Rightarrow> real \<Rightarrow> real" where
  "normalizeScore s mn mx = max 0 (min 1 ((s - mn) / (mx - mn)))"

text \<open>
  \<^verbatim>\<open>explainScore(lexical?, vector?, structural?)\<close>: a missing entry and the number 0 are
  both falsy.
\<close>

definition explainScore :: "BM25Score option \<Rightarrow> real \<Rightarrow> real \<Rightarrow> string" where
  "explainScore lexical vector structural =
     (let explanations =
            (case lexical of
               None \<Rightarrow> []
             | Some l \<Rightarrow> if score l > 0
                         then [''text match ('' @ join_comma (termMatches l) @ '')''] else [])
            @ (if vector \<noteq> 0 \<and> vector > 0.3 then [''semantic similarity''] else [])
            @ (if structural \<noteq> 0 \<and> structural > 0 then [''structural match''] else [])
      in if join_comma explanations = [] then ''general relevance'' else join_comma explanations)"

text \<open>
  The body of the loop over the candidate ids, up to the threshold test:
  \<^verbatim>\<open>m.get(id) || 0\<close> reads a missing entry as 0.
\<close>

definition fuse_candidate ::
  "(string, BM25Score) js_map \<Rightarrow> (string, real) js_map \<Rightarrow> (string, real) js_map \<Rightarrow> string
     \<Rightarrow> SearchResult" where
  "fuse_candidate lexical vector structural chunkId =
     (let lexicalScore = (case map_get lexical chunkId of None \<Rightarrow> 0 | Some l \<Rightarrow> score l);
          vectorScore = (case map_get vector chunkId of None \<Rightarrow> 0 | Some v \<Rightarrow> v);
          structuralScore = (case map_get structural chunkId of None \<Rightarrow> 0 | Some s \<Rightarrow> s);
          fused = 0.3 * normalizeScore lexicalScore 0 10 + 0.4 * vectorScore + 0.3 * structuralScore
      in \<lparr> chunk = EmptyObject,
           lexicalScore = lexicalScore,
           vectorScore = vectorScore,
           structuralScore = structuralScore,
           fusedScore = fused,
           reason = explainScore (map_get lexical chunkId) vectorScore structuralScore \<rparr>)"

definition allChunkIds ::
  "(string, BM25Score) js_map \<Rightarrow> (string, real) js_map \<Rightarrow> (string, real) js_map \<Rightarrow> string list" where
  "allChunkIds lexical vector structural = new_Set (keys lexical @ keys vector @ keys structural)"

text \<open>
  \<^verbatim>\<open>results.sort((a, b) => b.fusedScore - a.fusedScore)\<close>: \<open>Array.prototype.sort\<close> is
  stable, so this is a stable sort by descending fused score.
\<close>

definition fuseAndRerank ::
  "(string, BM25Score) js_map \<Rightarrow> (string, real) js_map \<Rightarrow> (string, real) js_map \<Rightarrow> string
     \<Rightarrow> SearchResult list" where
  "fuseAndRerank lexical vector structural query =
     (let results = filter (\<lambda>r. fusedScore r > 0.1)
                      (map (fuse_candidate lexical vector structural)
                           (allChunkIds lexical vector structural))
      in sort_key (\<lambda>r. - fusedScore r) results)"

text \<open>
  The results do not record which chunk id they were computed for. To speak about the
  order of the candidates, the same computation is repeated with every result paired with
  its candidate id; \<open>fuseAndRerank\<close> is its second projection (lemma \<open>fuseAndRerank_tagged\<close>).
\<close>

definition fuse_tagged ::
  "(string, BM25Score) js_map \<Rightarrow> (string, real) js_map \<Rightarrow> (string, real) js_map
     \<Rightarrow> (string \<times> SearchResult) list" where
  "fuse_tagged lexical vector structural =
     sort_key (\<lambda>p. - fusedScore (snd p))
       (filter (\<lambda>p. fusedScore (snd p) > 0.1)
          (map (\<lambda>chunkId. (chunkId, fuse_candidate lexical vector structural chunkId))
               (allChunkIds lexical vector structural)))"

text \<open>The order the specification asks for: descending score, equal scores by chunk id.\<close>

definition by_score_then_id :: "(string \<times> SearchResult) \<Rightarrow> (string \<times> SearchResult) \<Rightarrow> bool" where
  "by_score_then_id p q =
     (fusedScore (snd p) > fusedScore (snd q)
      \<or> (fusedScore (snd p) = fusedScore (snd q) \<and> fst p \<le> fst q))"

definition by_score_then_id_desc :: "(string \<times> SearchResult) \<Rightarrow> (string \<times> SearchResult) \<Rightarrow> bool" where
  "by_score_then_id_desc p q =
     (fusedScore (snd p) > fusedScore (snd q)
      \<or> (fusedScore (snd p) = fusedScore (snd q) \<and> fst q \<le> fst p))"

text \<open>
  Three candidates with the same fused score 0.15: \<open>b\<close> from the lexical map, \<open>a\<close> and \<open>c\<close>
  from the structural map.
\<close>

definition tie_lexical :: "(string, BM25Score) js_map" where
  "tie_lexical = [(''b'', \<lparr>score = 5, termMatches = [''x'']\<rparr>)]"

definition tie_structural :: "(string, real) js_map" where
  "tie_structural = [(''a'', 0.5), (''c'', 0.5)]"

section \<open>The advanced index: storage, queries and the indexing pass\<close>

subsection \<open>More string operations\<close>

text \<open>\<^verbatim>\<open>s.split(/\s+/)\<close>: pieces between runs of white space; \<open>prev\<close> tells that the last
  character read was white space, so a run separates only once.\<close>

fun split_ws_from :: "string \<Rightarrow> string \<Rightarrow> bool \<Rightarrow> string list" where
  "split_ws_from [] cur prev = [cur]"
| "split_ws_from (c # cs) cur prev =
     (if is_space c
      then (if prev then split_ws_from cs cur True else cur # split_ws_from cs [] True)
      else split_ws_from cs (cur @ [c]) False)"

definition split_ws :: "string \<Rightarrow> string list" where
  "split_ws s = split_ws_from s [] False"

fun join_space :: "string list \<Rightarrow> string" where
  "join_space [] = []"
| "join_space [l] = l"
| "join_space (l # ls) = l @ '' '' @ join_space ls"

text \<open>
  SQLite's \<open>LIKE\<close>: \<open>%\<close> matches any run of characters, \<open>_\<close> any one character, and
  ASCII letters match without regard to case.
\<close>

fun sql_like :: "string \<Rightarrow> string \<Rightarrow> bool" where
  "sql_like [] s = (s = [])"
| "sql_like (p # ps) [] = (p = CHR ''%'' \<and> sql_like ps [])"
| "sql_like (p # ps) (c # cs) =
     (if p = CHR ''%'' then sql_like ps (c # cs) \<or> sql_like (p # ps) cs
      else (p = CHR ''_'' \<or> lower_char p = lower_char c) \<and> sql_like ps cs)"

subsection \<open>Tables\<close>

record repo_row =
  r_id :: nat
  r_name :: string
  r_lastCommitHash :: "string option"
  r_lastIndexed :: "string option"
  r_totalChunks :: nat

record chunk_row =
  ch_id :: string
  ch_repositoryId :: nat
  ch_filePath :: string
  ch_content :: string
  ch_chunkType :: string
  ch_language :: string
  ch_startLine :: nat
  ch_endLine :: nat
  ch_embedding :: "real list"
  ch_termFreq :: "string \<rightharpoonup> nat"

record symbol_row =
  sy_id :: nat
  sy_chunkId :: string
  sy_name :: string
  sy_symbolType :: string
  sy_line :: nat
  sy_column :: nat
  sy_endLine :: nat
  sy_endColumn :: nat
  sy_context :: string

record fts_row =
  f_id :: string
  f_content :: string
  f_filePath :: string
  f_symbolNames :: string

text \<open>
  The four tables, with the counters behind the two \<open>AUTOINCREMENT\<close> keys. The schema
  declares the foreign keys without \<open>ON DELETE CASCADE\<close> and never switches their
  enforcement on, so deleting a chunk row touches no symbol row.
\<close>

record adv_db =
  repositories :: "repo_row list"
  chunks :: "chunk_row list"
  symbols :: "symbol_row list"
  chunks_fts :: "fts_row list"
  repo_seq :: nat
  symbol_seq :: nat

subsection \<open>The outside world\<close>

datatype error = SourceUnavailable | StorageFailure | FileUnreadable | CleanupFailure

text \<open>
  A clone that succeeded: the commit \<^verbatim>\<open>git rev-parse HEAD\<close> prints and the files that the
  \<^verbatim>\<open>find\<close> command of \<open>findRelevantFiles\<close> lists, by their path inside the clone, each
  with its text (\<open>None\<close> when reading it throws).
\<close>

record checkout =
  co_head :: string
  co_files :: "(string \<times> string option) list"

text \<open>
  What the indexer calls into and cannot control:
  \<^item> \<open>source\<close>: \<^verbatim>\<open>git clone --depth 1 --branch\<close> and \<^verbatim>\<open>rev-parse\<close>; \<open>None\<close> when one throws;
  \<^item> \<open>rm_ok k\<close>: whether the \<open>k\<close>-th removal of the temporary directory succeeds
    (0 before the clone, 1 after the pass, 2 in the error handler);
  \<^item> \<open>embeddingModel\<close>: the loaded model, if loading succeeded; a call may throw (\<open>None\<close>);
  \<^item> \<open>fts_match\<close>: the FTS5 engine: the rows of the full-text table that match a query
    with their \<open>bm25\<close> value, in the order of \<open>bm25\<close>; \<open>None\<close> when the query is rejected;
  \<^item> \<open>now\<close>: \<^verbatim>\<open>new Date().toISOString()\<close>;
  \<^item> \<open>db_fault n\<close>: whether the \<open>n\<close>-th database statement of the call throws.
\<close>

record world =
  source :: "string \<Rightarrow> string \<Rightarrow> checkout option"
  rm_ok :: "nat \<Rightarrow> bool"
  embeddingModel :: "(string \<Rightarrow> real list option) option"
  fts_match :: "fts_row list \<Rightarrow> string \<Rightarrow> (fts_row \<times> real) list option"
  now :: string
  db_fault :: "nat \<Rightarrow> bool"

text \<open>A computation threads the tables and the number of statements issued so far.\<close>

type_synonym adv_state = "adv_db \<times> nat"

subsection \<open>Helper methods\<close>

definition getOrCreateRepository :: "world \<Rightarrow> string \<Rightarrow> adv_state \<Rightarrow> (error + nat) \<times> adv_state" where
  "getOrCreateRepository w name st =
     (case st of (db, n) \<Rightarrow>
        if db_fault w n then (Inl StorageFailure, (db, n + 1))
        else (case find (\<lambda>r. r_name r = name) (repositories db) of
                Some existing \<Rightarrow> (Inr (r_id existing), (db, n + 1))
              | None \<Rightarrow>
                  if db_fault w (n + 1) then (Inl StorageFailure, (db, n + 2))
                  else (let lastID = repo_seq db + 1
                        in (Inr lastID,
                            (db\<lparr> repositories := repositories db @
                                   [\<lparr> r_id = lastID, r_name = name, r_lastCommitHash = None,
                                      r_lastIndexed = None, r_totalChunks = 0 \<rparr>],
                                 repo_seq := lastID \<rparr>,
                             n + 2)))))"

definition generateEmbedding :: "world \<Rightarrow> string \<Rightarrow> real list" where
  "generateEmbedding w text =
     (case embeddingModel w of
        None \<Rightarrow> []
      | Some model \<Rightarrow> (case model (take 512 text) of None \<Rightarrow> [] | Some v \<Rightarrow> v))"

definition is_word_char :: "char \<Rightarrow> bool" where
  "is_word_char c = (c \<in> set (''0123456789'' @ upper_letters @ lower_letters @ ''_''))"

definition calculateTermFrequencies :: "string \<Rightarrow> (string \<rightharpoonup> nat)" where
  "calculateTermFrequencies content =
     (let terms = filter (\<lambda>term. length term > 2)
                    (split_ws (map (\<lambda>c. if is_word_char c \<or> is_space c then c else CHR '' '')
                                   (toLowerCase content)))
      in foldl (\<lambda>freq term. freq(term \<mapsto> (case freq term of None \<Rightarrow> 0 | Some k \<Rightarrow> k) + 1))
               Map.empty terms)"

subsection \<open>The three searches\<close>

text \<open>
  The full-text query joins the matching rows with the chunks of the repository, keeps
  the first 50, and scores each with the absolute value of \<open>bm25\<close>.
\<close>

definition lexicalSearch ::
  "world \<Rightarrow> nat \<Rightarrow> string \<Rightarrow> adv_state \<Rightarrow> (error + (string, BM25Score) js_map) \<times> adv_state" where
  "lexicalSearch w repoId query st =
     (case st of (db, n) \<Rightarrow>
        if db_fault w n then (Inl StorageFailure, (db, n + 1))
        else (case fts_match w (chunks_fts db) query of
                None \<Rightarrow> (Inl StorageFailure, (db, n + 1))
              | Some matched \<Rightarrow>
                  (let ftsResults = take 50 (concat (map (\<lambda>(f, fts_score).
                          map (\<lambda>c. (ch_id c, ch_content c, fts_score))
                              (filter (\<lambda>c. ch_id c = f_id f \<and> ch_repositoryId c = repoId) (chunks db)))
                        matched));
                       terms = split_ws (toLowerCase query)
                   in (Inr (foldl (\<lambda>results (row_id, row_content, fts_score).
                              map_set results row_id
                                \<lparr> score = \<bar>fts_score\<bar>,
                                  termMatches = filter (\<lambda>term. str_includes (toLowerCase row_content) term) terms \<rparr>)
                            [] ftsResults),
                       (db, n + 1)))))"

text \<open>
  A similarity enters the result only if it is above 0.1; NaN fails the comparison, and
  the cosine of real vectors is never infinite (lemma \<open>cosine_not_infinite\<close>).
\<close>

definition vectorSearch ::
  "world \<Rightarrow> nat \<Rightarrow> string \<Rightarrow> adv_state \<Rightarrow> (error + (string, real) js_map) \<times> adv_state" where
  "vectorSearch w repoId query st =
     (case st of (db, n) \<Rightarrow>
        if embeddingModel w = None then (Inr [], (db, n))
        else (let queryEmbedding = generateEmbedding w query
              in if db_fault w n then (Inl StorageFailure, (db, n + 1))
                 else (Inr (foldl (\<lambda>results c.
                              (case cosineSimilarity queryEmbedding (ch_embedding c) of
                                 Fin similarity \<Rightarrow>
                                   if similarity > 0.1 then map_set results (ch_id c) similarity
                                   else results
                               | _ \<Rightarrow> results))
                            [] (filter (\<lambda>c. ch_repositoryId c = repoId) (chunks db))),
                       (db, n + 1))))"

definition symbol_boost :: "string \<Rightarrow> string \<Rightarrow> real" where
  "symbol_boost query symbolType =
     (if str_includes (toLowerCase query) ''header'' \<and> symbolType = ''element'' then 1.0
      else if str_includes (toLowerCase query) ''function'' \<and> symbolType = ''function'' then 0.8
      else 0.5)"

definition structuralSearch ::
  "world \<Rightarrow> nat \<Rightarrow> string \<Rightarrow> adv_state \<Rightarrow> (error + (string, real) js_map) \<times> adv_state" where
  "structuralSearch w repoId query st =
     (case st of (db, n) \<Rightarrow>
        if db_fault w n then (Inl StorageFailure, (db, n + 1))
        else (let symbolMatches = concat (map (\<lambda>s.
                      map (\<lambda>c. (ch_id c, sy_symbolType s))
                          (filter (\<lambda>c. sy_chunkId s = ch_id c \<and> ch_repositoryId c = repoId) (chunks db)))
                    (filter (\<lambda>s. sql_like (''%'' @ query @ ''%'') (sy_name s)
                                 \<or> sql_like (''%'' @ query @ ''%'') (sy_context s)
                                 \<or> sy_symbolType s = query)
                            (symbols db)))
              in (Inr (foldl (\<lambda>results (match_id, symbolType).
                         (let existingScore = (case map_get results match_id of None \<Rightarrow> 0 | Some x \<Rightarrow> x)
                          in map_set results match_id (existingScore + symbol_boost query symbolType)))
                       [] symbolMatches),
                  (db, n + 1))))"

subsection \<open>The query\<close>

definition searchRelevantChunks ::
  "world \<Rightarrow> string \<Rightarrow> string \<Rightarrow> nat \<Rightarrow> adv_state \<Rightarrow> (error + SearchResult list) \<times> adv_state" where
  "searchRelevantChunks w repoName query limit st =
     (case getOrCreateRepository w repoName st of
        (Inl e, st1) \<Rightarrow> (Inl e, st1)
      | (Inr repoId, st1) \<Rightarrow>
     (case lexicalSearch w repoId query st1 of
        (Inl e, st2) \<Rightarrow> (Inl e, st2)
      | (Inr lexicalResults, st2) \<Rightarrow>
     (case vectorSearch w repoId query st2 of
        (Inl e, st3) \<Rightarrow> (Inl e, st3)
      | (Inr vectorResults, st3) \<Rightarrow>
     (case structuralSearch w repoId query st3 of
        (Inl e, st4) \<Rightarrow> (Inl e, st4)
      | (Inr structuralResults, st4) \<Rightarrow>
          (Inr (take limit (fuseAndRerank lexicalResults vectorResults structuralResults query)),
           st4)))))"

subsection \<open>Concrete states for evaluation\<close>

text \<open>
  A world in which nothing fails: no embedding model is loaded, the full-text engine
  finds no row, every clone gives an empty tree at commit \<open>c0ffee\<close>.
\<close>

definition quiet_world :: world where
  "quiet_world =
     \<lparr> source = (\<lambda>repoName branch. Some \<lparr> co_head = ''c0ffee'', co_files = [] \<rparr>),
       rm_ok = (\<lambda>k. True),
       embeddingModel = None,
       fts_match = (\<lambda>rows query. Some []),
       now = ''2025-01-01T00:00:00.000Z'',
       db_fault = (\<lambda>n. False) \<rparr>"

definition empty_db :: adv_db where
  "empty_db = \<lparr> repositories = [], chunks = [], symbols = [], chunks_fts = [],
                repo_seq = 0, symbol_seq = 0 \<rparr>"

text \<open>
  The tables after indexing a repository \<open>owner/name\<close> whose only file \<open>README.md\<close> is the
  line \<open># Title\<close>: one section chunk and its header symbol.
\<close>

definition readme_db :: adv_db where
  "readme_db =
     \<lparr> repositories =
         [\<lparr> r_id = 1, r_name = ''owner/name'', r_lastCommitHash = Some ''abc123'',
            r_lastIndexed = Some ''2024-12-31T00:00:00.000Z'', r_totalChunks = 1 \<rparr>],
       chunks =
         [\<lparr> ch_id = ''README.md:1-1:section'', ch_repositoryId = 1, ch_filePath = ''README.md'',
            ch_content = ''# Title'', ch_chunkType = ''block'', ch_language = ''markdown'',
            ch_startLine = 1, ch_endLine = 1, ch_embedding = [],
            ch_termFreq = [''title'' \<mapsto> 1] \<rparr>],
       symbols =
         [\<lparr> sy_id = 1, sy_chunkId = ''README.md:1-1:section'', sy_name = ''Title'',
            sy_symbolType = ''element'', sy_line = 1, sy_column = 0, sy_endLine = 1,
            sy_endColumn = 5, sy_context = ''# Title'' \<rparr>],
       chunks_fts =
         [\<lparr> f_id = ''README.md:1-1:section'', f_content = ''# Title'',
            f_filePath = ''README.md'', f_symbolNames = ''Title'' \<rparr>],
       repo_seq = 1, symbol_seq = 1 \<rparr>"

subsection \<open>The indexing pass\<close>

text \<open>The \<open>INSERT INTO symbols\<close> loop over the symbols of one chunk.\<close>

fun insert_symbols :: "world \<Rightarrow> string \<Rightarrow> symbol list \<Rightarrow> adv_state \<Rightarrow> (error + unit) \<times> adv_state" where
  "insert_symbols w chunkId [] st = (Inr (), st)"
| "insert_symbols w chunkId (s # ss) st =
     (case st of (db, n) \<Rightarrow>
        if db_fault w n then (Inl StorageFailure, (db, n + 1))
        else insert_symbols w chunkId ss
               (db\<lparr> symbols := symbols db @
                      [\<lparr> sy_id = symbol_seq db + 1, sy_chunkId = chunkId, sy_name = s_name s,
                         sy_symbolType = s_type s, sy_line = s_line s, sy_column = s_column s,
                         sy_endLine = s_endLine s, sy_endColumn = s_endColumn s,
                         sy_context = s_context s \<rparr>],
                    symbol_seq := symbol_seq db + 1 \<rparr>,
                n + 1))"

text \<open>
  One iteration of the loop over the chunks of a file. \<open>chunks.id\<close> is the primary key:
  inserting an id that the table already holds is rejected by the database.
\<close>

definition store_chunk ::
  "world \<Rightarrow> nat \<Rightarrow> string \<Rightarrow> string \<Rightarrow> chunk \<Rightarrow> adv_state \<Rightarrow> (error + unit) \<times> adv_state" where
  "store_chunk w repoId relativePath language c st =
     (case st of (db, n) \<Rightarrow>
        (let embedding = generateEmbedding w (c_content c);
             termFreq = calculateTermFrequencies (c_content c)
         in if db_fault w n \<or> c_id c \<in> set (map ch_id (chunks db))
            then (Inl StorageFailure, (db, n + 1))
            else (case insert_symbols w (c_id c) (c_symbols c)
                         (db\<lparr> chunks := chunks db @
                               [\<lparr> ch_id = c_id c, ch_repositoryId = repoId,
                                  ch_filePath = relativePath, ch_content = c_content c,
                                  ch_chunkType = c_type c, ch_language = language,
                                  ch_startLine = c_startLine c, ch_endLine = c_endLine c,
                                  ch_embedding = embedding, ch_termFreq = termFreq \<rparr>] \<rparr>,
                          n + 1) of
                    (Inl e, st1) \<Rightarrow> (Inl e, st1)
                  | (Inr u, (db2, n2)) \<Rightarrow>
                      if db_fault w n2 then (Inl StorageFailure, (db2, n2 + 1))
                      else (Inr (),
                            (db2\<lparr> chunks_fts := chunks_fts db2 @
                                   [\<lparr> f_id = c_id c, f_content = c_content c,
                                      f_filePath = relativePath,
                                      f_symbolNames = join_space (map s_name (c_symbols c)) \<rparr>] \<rparr>,
                             n2 + 1)))))"

fun store_chunks ::
  "world \<Rightarrow> nat \<Rightarrow> string \<Rightarrow> string \<Rightarrow> chunk list \<Rightarrow> nat \<Rightarrow> adv_state \<Rightarrow> (error + nat) \<times> adv_state" where
  "store_chunks w repoId relativePath language [] totalChunks st = (Inr totalChunks, st)"
| "store_chunks w repoId relativePath language (c # cs) totalChunks st =
     (case store_chunk w repoId relativePath language c st of
        (Inl e, st1) \<Rightarrow> (Inl e, st1)
      | (Inr u, st1) \<Rightarrow> store_chunks w repoId relativePath language cs (totalChunks + 1) st1)"

text \<open>
  The loop over the files. Nothing inside it is caught: a file that cannot be read and a
  rejected statement both leave the loop and the pass.
\<close>

fun index_files ::
  "platform \<Rightarrow> world \<Rightarrow> nat \<Rightarrow> (string \<times> string option) list \<Rightarrow> nat \<Rightarrow> adv_state
     \<Rightarrow> (error + nat) \<times> adv_state" where
  "index_files P w repoId [] totalChunks st = (Inr totalChunks, st)"
| "index_files P w repoId ((relativePath, file) # files) totalChunks st =
     (let language = detectLanguage P relativePath
      in case file of
           None \<Rightarrow> (Inl FileUnreadable, st)
         | Some content \<Rightarrow>
             (case store_chunks w repoId relativePath language
                     (parseFileIntoChunks P content relativePath language) totalChunks st of
                (Inl e, st1) \<Rightarrow> (Inl e, st1)
              | (Inr totalChunks1, st1) \<Rightarrow> index_files P w repoId files totalChunks1 st1))"

text \<open>
  The three \<open>DELETE\<close> statements under "Clear existing data", in the order of the source.
  The second one selects the chunk ids of the repository from the table the first one has
  just emptied of them.
\<close>

definition clear_existing :: "world \<Rightarrow> nat \<Rightarrow> string \<Rightarrow> adv_state \<Rightarrow> (error + unit) \<times> adv_state" where
  "clear_existing w repoId repoName st =
     (case st of (db, n) \<Rightarrow>
        if db_fault w n then (Inl StorageFailure, (db, n + 1))
        else (let db1 = db\<lparr> chunks := filter (\<lambda>c. ch_repositoryId c \<noteq> repoId) (chunks db) \<rparr>
              in if db_fault w (n + 1) then (Inl StorageFailure, (db1, n + 2))
                 else (let db2 = db1\<lparr> symbols := filter (\<lambda>s. sy_chunkId s \<notin>
                                     set (map ch_id (filter (\<lambda>c. ch_repositoryId c = repoId) (chunks db1))))
                                   (symbols db1) \<rparr>
                       in if db_fault w (n + 2) then (Inl StorageFailure, (db2, n + 3))
                          else (Inr (),
                                (db2\<lparr> chunks_fts := filter (\<lambda>f. \<not> sql_like (repoName @ '':%'') (f_id f))
                                                         (chunks_fts db2) \<rparr>,
                                 n + 3)))))"

definition update_metadata :: "nat \<Rightarrow> string \<Rightarrow> string \<Rightarrow> nat \<Rightarrow> adv_db \<Rightarrow> adv_db" where
  "update_metadata repoId currentHash lastIndexed totalChunks db =
     db\<lparr> repositories :=
           map (\<lambda>r. if r_id r = repoId
                    then r\<lparr> r_lastCommitHash := Some currentHash,
                            r_lastIndexed := Some lastIndexed,
                            r_totalChunks := totalChunks \<rparr>
                    else r)
               (repositories db) \<rparr>"

text \<open>The body of the \<open>try\<close> block.\<close>

definition index_pass :: "platform \<Rightarrow> world \<Rightarrow> string \<Rightarrow> string \<Rightarrow> adv_db \<Rightarrow> (error + unit) \<times> adv_db" where
  "index_pass P w repoName branch db =
     (if \<not> rm_ok w 0 then (Inl CleanupFailure, db)
      else (case source w repoName branch of
              None \<Rightarrow> (Inl SourceUnavailable, db)
            | Some co \<Rightarrow>
     (case getOrCreateRepository w repoName (db, 0) of
        (Inl e, (db1, n1)) \<Rightarrow> (Inl e, db1)
      | (Inr repoId, st1) \<Rightarrow>
     (case clear_existing w repoId repoName st1 of
        (Inl e, (db2, n2)) \<Rightarrow> (Inl e, db2)
      | (Inr u, st2) \<Rightarrow>
     (case index_files P w repoId (co_files co) 0 st2 of
        (Inl e, (db3, n3)) \<Rightarrow> (Inl e, db3)
      | (Inr totalChunks, (db3, n3)) \<Rightarrow>
          if db_fault w n3 then (Inl StorageFailure, db3)
          else (let db4 = update_metadata repoId (co_head co) (now w) totalChunks db3
                in if rm_ok w 1 then (Inr (), db4) else (Inl CleanupFailure, db4)))))))"

text \<open>
  The \<open>catch\<close> block removes the temporary directory and throws the error again; if that
  removal throws, its own error goes to the caller instead.
\<close>

definition indexRepository :: "platform \<Rightarrow> world \<Rightarrow> string \<Rightarrow> string \<Rightarrow> adv_db \<Rightarrow> (error + unit) \<times> adv_db" where
  "indexRepository P w repoName branch db =
     (case index_pass P w repoName branch db of
        (Inr u, db') \<Rightarrow> (Inr (), db')
      | (Inl e, db') \<Rightarrow> (if rm_ok w 2 then Inl e else Inl CleanupFailure, db'))"

text \<open>The commit a repository name is recorded with, as \<open>needsUpdate\<close> and the statistics read it.\<close>

definition stored_commit :: "adv_db \<Rightarrow> string \<Rightarrow> string option" where
  "stored_commit db name =
     (case find (\<lambda>r. r_name r = name) (repositories db) of
        None \<Rightarrow> None
      | Some r \<Rightarrow> r_lastCommitHash r)"

text \<open>
  The symbol rows that point at a chunk id of the given snapshot (the chunk rows a
  repository had before a pass).
\<close>

definition symbols_of_snapshot :: "chunk_row list \<Rightarrow> adv_db \<Rightarrow> symbol_row list" where
  "symbols_of_snapshot snapshot db =
     filter (\<lambda>s. sy_chunkId s \<in> set (map ch_id snapshot)) (symbols db)"

section \<open>The file-level index (\<open>CodebaseIndexService\<close>)\<close>

text \<open>
  The second index class keeps whole files. Functions that carry the same name in both
  classes have the suffix \<open>_basic\<close> here.
\<close>

subsection \<open>Tables and the outside world\<close>

record brepo_row =
  br_id :: nat
  br_name :: string
  br_lastCommitHash :: "string option"
  br_lastIndexed :: "string option"
  br_totalFiles :: nat

record file_row =
  fi_id :: nat
  fi_repositoryId :: nat
  fi_path :: string
  fi_content :: string
  fi_contentHash :: string
  fi_size :: nat
  fi_lastModified :: string
  fi_fileType :: string
  fi_embedding :: "real list"
  fi_imports :: "string list"
  fi_exports :: "string list"

record basic_db =
  b_repositories :: "brepo_row list"
  b_files :: "file_row list"

text \<open>
  A clone that succeeded: \<^verbatim>\<open>log.latest?.hash\<close> (undefined when the log is empty) and the
  files \<open>findRelevantFiles\<close> lists, each with its text (\<open>None\<close> when reading it throws).
\<close>

record bcheckout =
  bco_head :: "string option"
  bco_files :: "(string \<times> string option) list"

text \<open>
  The collaborators of the service:
  \<^item> \<open>bw_clone\<close>: the shallow clone and its log; \<open>None\<close> when cloning or reading the log throws;
  \<^item> \<open>bw_commit\<close>: the commit the GitHub API reports for a branch; \<open>None\<close> when the request
    fails, is not \<open>ok\<close>, or carries no usable \<open>sha\<close>;
  \<^item> \<open>bw_rm_ok k\<close>: whether the \<open>k\<close>-th removal of the temporary directory succeeds
    (0 before the clone, 1 after the pass, 2 in the error handler);
  \<^item> \<open>bw_embedder\<close>: the loaded embedding model, if any; a call may throw (\<open>None\<close>);
  \<^item> \<open>bw_md5\<close>, \<open>bw_imports\<close>, \<open>bw_exports\<close>: the digest and the matches of the two
    import/export patterns;
  \<^item> \<open>bw_extname\<close>: \<^verbatim>\<open>path.extname\<close>;
  \<^item> \<open>bw_now\<close>: the current time as ISO text;
  \<^item> \<open>bw_db_fault n\<close>: whether the \<open>n\<close>-th database statement of the call throws.
\<close>

record basic_world =
  bw_clone :: "string \<Rightarrow> string \<Rightarrow> bcheckout option"
  bw_commit :: "string \<Rightarrow> string \<Rightarrow> string option"
  bw_rm_ok :: "nat \<Rightarrow> bool"
  bw_embedder :: "(string \<Rightarrow> real list option) option"
  bw_md5 :: "string \<Rightarrow> string"
  bw_imports :: "string \<Rightarrow> string list"
  bw_exports :: "string \<Rightarrow> string list"
  bw_extname :: "string \<Rightarrow> string"
  bw_now :: string
  bw_db_fault :: "nat \<Rightarrow> bool"

type_synonym basic_state = "basic_db \<times> nat"

text \<open>The row id of an \<open>INTEGER PRIMARY KEY\<close> column: one more than the largest in the table.\<close>

definition next_rowid :: "nat list \<Rightarrow> nat" where
  "next_rowid ids = fold max ids 0 + 1"

subsection \<open>Repository records and staleness\<close>

definition getOrCreateRepository_basic ::
  "basic_world \<Rightarrow> string \<Rightarrow> basic_state \<Rightarrow> (error + nat) \<times> basic_state" where
  "getOrCreateRepository_basic w repoName st =
     (case st of (db, n) \<Rightarrow>
        if bw_db_fault w n then (Inl StorageFailure, (db, n + 1))
        else (case find (\<lambda>r. br_name r = repoName) (b_repositories db) of
                Some repo \<Rightarrow> (Inr (br_id repo), (db, n + 1))
              | None \<Rightarrow>
                  if bw_db_fault w (n + 1) then (Inl StorageFailure, (db, n + 2))
                  else (let lastID = next_rowid (map br_id (b_repositories db))
                        in (Inr lastID,
                            (db\<lparr> b_repositories := b_repositories db @
                                   [\<lparr> br_id = lastID, br_name = repoName, br_lastCommitHash = None,
                                      br_lastIndexed = Some (bw_now w), br_totalFiles = 0 \<rparr>] \<rparr>,
                             n + 2)))))"

text \<open>
  \<open>needsUpdate\<close>: \<^verbatim>\<open>!repo || !repo.lastCommitHash\<close> holds for a missing row, a null hash and
  the empty string. The request and the reading of its answer sit in a \<open>try\<close> block whose
  handler answers \<open>true\<close>.
\<close>

definition needsUpdate :: "basic_world \<Rightarrow> string \<Rightarrow> string \<Rightarrow> basic_db \<Rightarrow> error + bool" where
  "needsUpdate w repoName branch db =
     (if bw_db_fault w 0 then Inl StorageFailure
      else (case find (\<lambda>r. br_name r = repoName) (b_repositories db) of
              None \<Rightarrow> Inr True
            | Some repo \<Rightarrow>
                (case br_lastCommitHash repo of
                   None \<Rightarrow> Inr True
                 | Some lastCommitHash \<Rightarrow>
                     if lastCommitHash = [] then Inr True
                     else (case bw_commit w repoName branch of
                             None \<Rightarrow> Inr True
                           | Some currentHash \<Rightarrow> Inr (lastCommitHash \<noteq> currentHash)))))"

subsection \<open>Indexing a file\<close>

text \<open>\<^verbatim>\<open>path.split('/').pop() || ''\<close>: the text after the last slash.\<close>

definition last_segment :: "string \<Rightarrow> string" where
  "last_segment p = rev (takeWhile (\<lambda>c. c \<noteq> CHR ''/'') (rev p))"

definition getFileType :: "basic_world \<Rightarrow> string \<Rightarrow> string" where
  "getFileType w p =
     (let ext = bw_extname w p;
          name = last_segment p
      in if ext = ''.html'' \<or> ext = ''.htm'' then ''page''
         else if ext = ''.css'' \<or> ext = ''.scss'' \<or> ext = ''.sass'' then ''style''
         else if ext = ''.tsx'' \<or> ext = ''.jsx'' then ''component''
         else if ext = ''.ts'' \<or> ext = ''.js'' then
           (if str_includes p ''/api/'' \<or> str_includes name ''route'' then ''api''
            else if str_includes p ''/lib/'' \<or> str_includes p ''/utils/'' then ''utility''
            else if name = ''layout.tsx'' \<or> name = ''page.tsx'' then ''page''
            else ''script'')
         else if ext = ''.json'' then (if name = ''package.json'' then ''config'' else ''data'')
         else if ext = ''.yml'' \<or> ext = ''.yaml'' then ''config''
         else if ext = ''.xml'' then ''data''
         else if ext = ''.md'' then ''documentation''
         else if ext = ''.php'' then ''script''
         else if ext = ''.py'' then ''script''
         else if ext = ''.rb'' then ''script''
         else if ext = ''.go'' then ''script''
         else if ext = ''.rs'' then ''script''
         else if ext = ''.java'' then ''script''
         else if ext = ''.c'' \<or> ext = ''.cpp'' \<or> ext = ''.h'' then ''script''
         else ''other'')"

definition extractImportsExports :: "basic_world \<Rightarrow> string \<Rightarrow> string \<Rightarrow> string list \<times> string list" where
  "extractImportsExports w content fileType =
     (if fileType = ''component'' \<or> fileType = ''script'' \<or> fileType = ''utility''
      then (bw_imports w content, bw_exports w content)
      else ([], []))"

text \<open>
  The embedding of a path and the first 1000 characters of a text; any failure, also a
  model that was never loaded, gives the vector of 384 zeros.
\<close>

definition generateEmbedding_basic :: "basic_world \<Rightarrow> string \<Rightarrow> string \<Rightarrow> real list" where
  "generateEmbedding_basic w p content =
     (let summary = p @ [newline] @ take 1000 content
      in case bw_embedder w of
           None \<Rightarrow> replicate 384 0
         | Some embedder \<Rightarrow> (case embedder summary of None \<Rightarrow> replicate 384 0 | Some v \<Rightarrow> v))"

text \<open>
  \<open>indexFile\<close>: a text of more than 50000 characters is skipped without an error;
  \<open>INSERT OR REPLACE\<close> first removes the row with the same repository and path.
\<close>

definition indexFile ::
  "basic_world \<Rightarrow> nat \<Rightarrow> string \<Rightarrow> string option \<Rightarrow> basic_state \<Rightarrow> (error + unit) \<times> basic_state" where
  "indexFile w repoId relativePath file st =
     (case st of (db, n) \<Rightarrow>
        (case file of
           None \<Rightarrow> (Inl FileUnreadable, (db, n))
         | Some content \<Rightarrow>
             if length content > 50000 then (Inr (), (db, n))
             else (let contentHash = bw_md5 w content;
                       fileType = getFileType w relativePath;
                       ie = extractImportsExports w content fileType;
                       embedding = generateEmbedding_basic w relativePath content
                   in if bw_db_fault w n then (Inl StorageFailure, (db, n + 1))
                      else (Inr (),
                            (db\<lparr> b_files :=
                                   filter (\<lambda>f. \<not> (fi_repositoryId f = repoId \<and> fi_path f = relativePath))
                                          (b_files db) @
                                   [\<lparr> fi_id = next_rowid (map fi_id (b_files db)),
                                      fi_repositoryId = repoId, fi_path = relativePath,
                                      fi_content = content, fi_contentHash = contentHash,
                                      fi_size = length content, fi_lastModified = bw_now w,
                                      fi_fileType = fileType, fi_embedding = embedding,
                                      fi_imports = fst ie, fi_exports = snd ie \<rparr>] \<rparr>,
                             n + 1)))))"

text \<open>
  The loop over the files: an error of \<open>indexFile\<close> is caught and logged, the file is not
  counted, and the loop goes on.
\<close>

fun index_files_basic ::
  "basic_world \<Rightarrow> nat \<Rightarrow> (string \<times> string option) list \<Rightarrow> nat \<Rightarrow> basic_state \<Rightarrow> nat \<times> basic_state" where
  "index_files_basic w repoId [] indexed st = (indexed, st)"
| "index_files_basic w repoId ((relativePath, file) # files) indexed st =
     (case indexFile w repoId relativePath file st of
        (Inl e, st1) \<Rightarrow> index_files_basic w repoId files indexed st1
      | (Inr u, st1) \<Rightarrow> index_files_basic w repoId files (indexed + 1) st1)"

definition update_metadata_basic :: "nat \<Rightarrow> string option \<Rightarrow> string \<Rightarrow> nat \<Rightarrow> basic_db \<Rightarrow> basic_db" where
  "update_metadata_basic repoId currentHash lastIndexed indexed db =
     db\<lparr> b_repositories :=
           map (\<lambda>r. if br_id r = repoId
                    then r\<lparr> br_lastCommitHash := currentHash,
                            br_lastIndexed := Some lastIndexed,
                            br_totalFiles := indexed \<rparr>
                    else r)
               (b_repositories db) \<rparr>"

text \<open>The body of the \<open>try\<close> block of \<open>indexRepository\<close>, after the repository record.\<close>

definition index_pass_basic ::
  "basic_world \<Rightarrow> nat \<Rightarrow> string \<Rightarrow> string \<Rightarrow> basic_state \<Rightarrow> (error + unit) \<times> basic_db" where
  "index_pass_basic w repoId repoName branch st =
     (case st of (db, n) \<Rightarrow>
        if \<not> bw_rm_ok w 0 then (Inl CleanupFailure, db)
        else (case bw_clone w repoName branch of
                None \<Rightarrow> (Inl SourceUnavailable, db)
              | Some co \<Rightarrow>
                  if bw_db_fault w n then (Inl StorageFailure, db)
                  else (let db1 = db\<lparr> b_files := filter (\<lambda>f. fi_repositoryId f \<noteq> repoId) (b_files db) \<rparr>
                        in case index_files_basic w repoId (bco_files co) 0 (db1, n + 1) of
                             (indexed, (db2, n2)) \<Rightarrow>
                               if bw_db_fault w n2 then (Inl StorageFailure, db2)
                               else (let db3 = update_metadata_basic repoId (bco_head co) (bw_now w) indexed db2
                                     in if bw_rm_ok w 1 then (Inr (), db3)
                                        else (Inl CleanupFailure, db3)))))"

definition indexRepository_basic ::
  "basic_world \<Rightarrow> string \<Rightarrow> string \<Rightarrow> basic_db \<Rightarrow> (error + unit) \<times> basic_db" where
  "indexRepository_basic w repoName branch db =
     (case getOrCreateRepository_basic w repoName (db, 0) of
        (Inl e, (db1, n1)) \<Rightarrow> (Inl e, db1)
      | (Inr repoId, st1) \<Rightarrow>
          (case index_pass_basic w repoId repoName branch st1 of
             (Inr u, db') \<Rightarrow> (Inr (), db')
           | (Inl e, db') \<Rightarrow> (if bw_rm_ok w 2 then Inl e else Inl CleanupFailure, db')))"

definition stored_commit_basic :: "basic_db \<Rightarrow> string \<Rightarrow> string option" where
  "stored_commit_basic db name =
     (case find (\<lambda>r. br_name r = name) (b_repositories db) of
        None \<Rightarrow> None
      | Some r \<Rightarrow> br_lastCommitHash r)"

subsection \<open>Scoring files against a task\<close>

fun js_sub :: "jsnum \<Rightarrow> jsnum \<Rightarrow> jsnum" where
  "js_sub (Fin x) (Fin y) = Fin (x - y)"
| "js_sub NaN b = NaN"
| "js_sub a NaN = NaN"
| "js_sub PosInf PosInf = NaN"
| "js_sub NegInf NegInf = NaN"
| "js_sub PosInf b = PosInf"
| "js_sub NegInf b = NegInf"
| "js_sub (Fin x) PosInf = NegInf"
| "js_sub (Fin x) NegInf = PosInf"

text \<open>
  \<^verbatim>\<open>s.match(/q([^q]+)q/g)\<close> for a quote character \<open>q\<close>: scanning from the left, a match
  is a quote, one or more other characters, and the next quote; the search goes on behind
  a match, and one character further where there is none.
\<close>

function quoted_matches :: "char \<Rightarrow> string \<Rightarrow> string list" where
  "quoted_matches q [] = []"
| "quoted_matches q (c # cs) =
     (if c = q \<and> takeWhile (\<lambda>x. x \<noteq> q) cs \<noteq> [] \<and> dropWhile (\<lambda>x. x \<noteq> q) cs \<noteq> []
      then (q # takeWhile (\<lambda>x. x \<noteq> q) cs @ [q])
             # quoted_matches q (tl (dropWhile (\<lambda>x. x \<noteq> q) cs))
      else quoted_matches q cs)"
  by pat_completeness auto
termination
proof (relation "measure (\<lambda>(q, s). length s)")
  show "wf (measure (\<lambda>(q, s). length s))" by simp
next
  fix q :: char and c :: char and cs :: string
  have "length (dropWhile (\<lambda>x. x \<noteq> q) cs) \<le> length cs"
    by (rule length_dropWhile_le)
  then show "((q, tl (dropWhile (\<lambda>x. x \<noteq> q) cs)), (q, c # cs)) \<in> measure (\<lambda>(q, s). length s)"
    by simp
next
  fix q :: char and c :: char and cs :: string
  show "((q, cs), (q, c # cs)) \<in> measure (\<lambda>(q, s). length s)" by simp
qed

text \<open>
  \<^verbatim>\<open>match(/'([^']+)'/g) || match(/"([^"]+)"/g) || []\<close>: the double-quoted phrases count
  only when there is no single-quoted one.
\<close>

definition quotedMatches :: "string \<Rightarrow> string list" where
  "quotedMatches taskDescription =
     (if quoted_matches (CHR 0x27) taskDescription \<noteq> []
      then quoted_matches (CHR 0x27) taskDescription
      else quoted_matches (CHR 0x22) taskDescription)"

definition isChangeTask :: "string \<Rightarrow> bool" where
  "isChangeTask taskLower =
     (str_includes taskLower ''change'' \<or> str_includes taskLower ''replace''
      \<or> str_includes taskLower ''update'')"

text \<open>For a change task only the first quoted phrase is looked for.\<close>

definition quotesToCheck :: "string \<Rightarrow> string list" where
  "quotesToCheck taskDescription =
     (if isChangeTask (toLowerCase taskDescription)
      then take 1 (quotedMatches taskDescription)
      else quotedMatches taskDescription)"

text \<open>\<^verbatim>\<open>quotedMatch.replace(/['"]/g, '').toLowerCase()\<close>.\<close>

definition cleanQuote :: "string \<Rightarrow> string" where
  "cleanQuote quotedMatch =
     toLowerCase (filter (\<lambda>c. c \<noteq> CHR 0x27 \<and> c \<noteq> CHR 0x22) quotedMatch)"

text \<open>
  The score and the reason are updated in place; each block of the loop body is a
  function on the pair. First the semantic score, then the boosts in the order of the
  source.
\<close>

type_synonym scoring = "jsnum \<times> string"

definition boost :: "real \<Rightarrow> string \<Rightarrow> scoring \<Rightarrow> scoring" where
  "boost amount why sr = (js_add (fst sr) amount, snd sr @ why)"

definition isUITask :: "string \<Rightarrow> bool" where
  "isUITask taskLower =
     (str_includes taskLower ''header'' \<or> str_includes taskLower ''topbar''
      \<or> str_includes taskLower ''navigation'' \<or> str_includes taskLower ''nav''
      \<or> str_includes taskLower ''title'' \<or> str_includes taskLower ''menu'')"

definition semantic_score :: "real list \<Rightarrow> file_row \<Rightarrow> scoring" where
  "semantic_score taskEmbedding file =
     (if length (fi_embedding file) > 0
      then (cosineSimilarity taskEmbedding (fi_embedding file), ''semantic similarity'')
      else (Fin 0, []))"

definition ui_boost :: "string \<Rightarrow> file_row \<Rightarrow> scoring \<Rightarrow> scoring" where
  "ui_boost taskLower file sr =
     (if isUITask taskLower then
        (if fi_path file = ''index.html'' \<or> str_includes (fi_path file) ''index.html''
           then boost 3.0 '', main HTML file for UI change'' sr
         else if endsWith (fi_path file) ''.html''
           then boost 1.5 '', HTML file for UI change'' sr
         else if fi_fileType file = ''page''
           then boost 0.8 '', page content for UI change'' sr
         else sr)
      else sr)"

definition style_boost :: "string \<Rightarrow> file_row \<Rightarrow> scoring \<Rightarrow> scoring" where
  "style_boost taskLower file sr =
     (if (str_includes taskLower ''style'' \<or> str_includes taskLower ''css''
          \<or> str_includes taskLower ''color'') \<and> fi_fileType file = ''style''
      then boost 0.4 '', styling task'' sr else sr)"

definition html_boost :: "file_row \<Rightarrow> scoring \<Rightarrow> scoring" where
  "html_boost file sr =
     (if fi_path file = ''index.html'' \<or> str_includes (fi_path file) ''index.html''
         \<or> endsWith (fi_path file) ''.html''
      then boost 0.5 '', HTML file'' sr else sr)"

text \<open>The exact-quoted-text block: one check, and one possible bonus of 2.0, per phrase.\<close>

definition quote_check :: "string \<Rightarrow> scoring \<Rightarrow> string \<Rightarrow> scoring" where
  "quote_check fileContentLower sr quotedMatch =
     (if str_includes fileContentLower (cleanQuote quotedMatch)
      then boost 2.0 ('', contains exact text '' @ [CHR 0x22] @ cleanQuote quotedMatch @ [CHR 0x22]) sr
      else sr)"

definition quoted_text_boost :: "string \<Rightarrow> file_row \<Rightarrow> scoring \<Rightarrow> scoring" where
  "quoted_text_boost taskDescription file sr =
     foldl (quote_check (toLowerCase (fi_content file))) sr (quotesToCheck taskDescription)"

definition word_check :: "string \<Rightarrow> scoring \<Rightarrow> string \<Rightarrow> scoring" where
  "word_check fileContentLower sr word =
     (if length word > 3 \<and> str_includes fileContentLower word
      then boost 0.3 ('', contains '' @ [CHR 0x22] @ word @ [CHR 0x22]) sr
      else sr)"

definition word_boost :: "string \<Rightarrow> file_row \<Rightarrow> scoring \<Rightarrow> scoring" where
  "word_boost taskDescription file sr =
     (if isChangeTask (toLowerCase taskDescription)
      then foldl (word_check (toLowerCase (fi_content file))) sr
             (split_ws (toLowerCase taskDescription))
      else sr)"

definition kind_boost :: "string \<Rightarrow> file_row \<Rightarrow> scoring \<Rightarrow> scoring" where
  "kind_boost taskLower file sr =
     (let sr1 = (if str_includes taskLower ''component'' \<and> fi_fileType file = ''component''
                 then boost 0.3 '', component task'' sr else sr);
          sr2 = (if str_includes taskLower ''api'' \<and> fi_fileType file = ''api''
                 then boost 0.3 '', API task'' sr1 else sr1)
      in if str_includes taskLower ''page'' \<and> fi_fileType file = ''page''
         then boost 0.3 '', page task'' sr2 else sr2)"

definition config_boost :: "file_row \<Rightarrow> scoring \<Rightarrow> scoring" where
  "config_boost file sr =
     (if fi_path file = ''package.json'' then boost 0.2 '', essential config'' sr else sr)"

definition score_file :: "real list \<Rightarrow> string \<Rightarrow> file_row \<Rightarrow> scoring" where
  "score_file taskEmbedding taskDescription file =
     (let taskLower = toLowerCase taskDescription
      in config_boost file
           (kind_boost taskLower file
             (word_boost taskDescription file
               (quoted_text_boost taskDescription file
                 (html_boost file
                   (style_boost taskLower file
                     (ui_boost taskLower file
                       (semantic_score taskEmbedding file))))))))"

text \<open>
  A result carries the row it was computed for (the source copies the fields of the row
  other than its id, its repository and its embedding), the score and the reason.
\<close>

record FileResult =
  fr_file :: file_row
  fr_score :: jsnum
  fr_reason :: string

text \<open>\<^verbatim>\<open>reason.replace(/^, /, '')\<close>.\<close>

definition strip_leading_comma :: "string \<Rightarrow> string" where
  "strip_leading_comma r = (if startsWith r '', '' then drop 2 r else r)"

text \<open>
  \<^verbatim>\<open>results.sort((a, b) => b.score - a.score)\<close>, as a stable insertion sort: an element
  moves behind another only where the comparator is positive.
\<close>

fun insert_by_score :: "FileResult \<Rightarrow> FileResult list \<Rightarrow> FileResult list" where
  "insert_by_score a [] = [a]"
| "insert_by_score a (b # bs) =
     (if js_gt (js_sub (fr_score b) (fr_score a)) 0 then b # insert_by_score a bs
      else a # b # bs)"

definition sort_by_score :: "FileResult list \<Rightarrow> FileResult list" where
  "sort_by_score rs = foldr insert_by_score rs []"

definition searchRelevantFiles ::
  "basic_world \<Rightarrow> string \<Rightarrow> string \<Rightarrow> nat \<Rightarrow> basic_state \<Rightarrow> (error + FileResult list) \<times> basic_state" where
  "searchRelevantFiles w repoName taskDescription limit st =
     (case getOrCreateRepository_basic w repoName st of
        (Inl e, st1) \<Rightarrow> (Inl e, st1)
      | (Inr repoId, (db, n)) \<Rightarrow>
          (let taskEmbedding = generateEmbedding_basic w ''task'' taskDescription
           in if bw_db_fault w n then (Inl StorageFailure, (db, n + 1))
              else (let files = filter (\<lambda>f. fi_repositoryId f = repoId) (b_files db);
                        results = concat (map (\<lambda>file.
                                    (case score_file taskEmbedding taskDescription file of
                                       (s, why) \<Rightarrow>
                                         if js_gt s 0.1
                                         then [\<lparr> fr_file = file, fr_score = s,
                                                  fr_reason = strip_leading_comma why \<rparr>]
                                         else []))
                                  files)
                    in (Inr (take limit (sort_by_score results)), (db, n + 1)))))"

text \<open>
  The part of a file's score that the exact-quoted-text block contributes: 2.0 for every
  checked phrase that the lower-cased content contains.
\<close>

definition phrase_bonus :: "file_row \<Rightarrow> string \<Rightarrow> real" where
  "phrase_bonus file quotedMatch =
     (if str_includes (toLowerCase (fi_content file)) (cleanQuote quotedMatch) then 2.0 else 0)"

definition quoted_bonus :: "string \<Rightarrow> file_row \<Rightarrow> real" where
  "quoted_bonus taskDescription file =
     sum_list (map (phrase_bonus file) (quotesToCheck taskDescription))"

text \<open>The score a file gets when the exact-quoted-text block is left out.\<close>

definition score_without_quoted :: "real list \<Rightarrow> string \<Rightarrow> file_row \<Rightarrow> scoring" where
  "score_without_quoted taskEmbedding taskDescription file =
     (let taskLower = toLowerCase taskDescription
      in config_boost file
           (kind_boost taskLower file
             (word_boost taskDescription file
               (html_boost file
                 (style_boost taskLower file
                   (ui_boost taskLower file
                     (semantic_score taskEmbedding file)))))))"

text \<open>The phrase \<^verbatim>\<open>'Ben Tossell'\<close> with its quotes, as the pattern matches it.\<close>

definition quoted_ben :: string where
  "quoted_ben = CHR 0x27 # ''Ben Tossell'' @ [CHR 0x27]"

subsection \<open>Concrete passes for evaluation\<close>

text \<open>
  The next commit of \<open>owner/name\<close>: \<open>README.md\<close> is gone and \<open>notes.txt\<close>, with the one
  line \<open>hello\<close>, is the only file.
\<close>

definition notes_world :: world where
  "notes_world =
     quiet_world\<lparr> source := (\<lambda>repoName branch.
        Some \<lparr> co_head = ''c0ffee'', co_files = [(''notes.txt'', Some ''hello'')] \<rparr>) \<rparr>"

text \<open>The same pass, with the statement that updates the repository record failing.\<close>

definition notes_world_update_fails :: world where
  "notes_world_update_fails = notes_world\<lparr> db_fault := (\<lambda>n. n = 6) \<rparr>"

text \<open>
  The file-level index: a world in which nothing fails, with a three-dimensional stand-in
  for the embedding model; the clone holds \<open>index.html\<close> and \<open>styles.css\<close>.
\<close>

definition title_html :: string where
  "title_html = ''<title>Ben Tossell</title>''"

definition basic_quiet_world :: basic_world where
  "basic_quiet_world =
     \<lparr> bw_clone = (\<lambda>repoName branch.
         Some \<lparr> bco_head = Some ''c0ffee'',
                bco_files = [(''index.html'', Some title_html),
                             (''styles.css'', Some ''body { color: red }'')] \<rparr>),
       bw_commit = (\<lambda>repoName branch. Some ''c0ffee''),
       bw_rm_ok = (\<lambda>k. True),
       bw_embedder = Some (\<lambda>summary. Some [1, 0, 0]),
       bw_md5 = (\<lambda>content. ''0f'' @ string_of_nat (length content)),
       bw_imports = (\<lambda>content. []),
       bw_exports = (\<lambda>content. []),
       bw_extname = (\<lambda>p. dropWhile (\<lambda>c. c \<noteq> CHR ''.'') p),
       bw_now = ''2025-01-01T00:00:00.000Z'',
       bw_db_fault = (\<lambda>n. False) \<rparr>"

definition basic_offline_world :: basic_world where
  "basic_offline_world = basic_quiet_world\<lparr> bw_clone := (\<lambda>repoName branch. None) \<rparr>"

definition basic_moved_world :: basic_world where
  "basic_moved_world = basic_quiet_world\<lparr> bw_commit := (\<lambda>repoName branch. Some ''beef01'') \<rparr>"

definition basic_empty_db :: basic_db where
  "basic_empty_db = \<lparr> b_repositories = [], b_files = [] \<rparr>"

definition basic_indexed_db :: basic_db where
  "basic_indexed_db =
     \<lparr> b_repositories =
         [\<lparr> br_id = 1, br_name = ''owner/name'', br_lastCommitHash = Some ''abc123'',
            br_lastIndexed = Some ''2024-12-31T00:00:00.000Z'', br_totalFiles = 0 \<rparr>],
       b_files = [] \<rparr>"

definition index_html_row :: file_row where
  "index_html_row =
     \<lparr> fi_id = 1, fi_repositoryId = 1, fi_path = ''index.html'', fi_content = title_html,
       fi_contentHash = ''0f26'', fi_size = 26, fi_lastModified = ''2025-01-01T00:00:00.000Z'',
       fi_fileType = ''page'', fi_embedding = [1, 0, 0], fi_imports = [], fi_exports = [] \<rparr>"

definition styles_css_row :: file_row where
  "styles_css_row =
     \<lparr> fi_id = 2, fi_repositoryId = 1, fi_path = ''styles.css'',
       fi_content = ''body { color: red }'',
       fi_contentHash = ''0f19'', fi_size = 19, fi_lastModified = ''2025-01-01T00:00:00.000Z'',
       fi_fileType = ''style'', fi_embedding = [1, 0, 0], fi_imports = [], fi_exports = [] \<rparr>"

definition task_title :: string where
  "task_title = ''change the title to 'Ben Tossell' ''"

definition task_rename :: string where
  "task_rename = ''change 'Old Name' to 'Ben Tossell' ''"

section \<open>Properties of the chunkers\<close>

lemma split_newline_nonempty: "split_newline s \<noteq> []"
  by (induction s) (auto split: list.splits)









lemma exec_all_empty:
  assumes "engine_ok P"
  shows "exec_all P pat [] = []"
proof (cases "exec_all P pat []")
  case Nil
  then show ?thesis .
next
  case (Cons m ms)
  then have "m \<in> set (exec_all P pat [])" by simp
  with assms have "m_text m \<noteq> [] \<and> slice [] (m_index m) (m_index m + length (m_text m)) = m_text m"
    unfolding engine_ok_def by blast
  then show ?thesis by (auto simp: slice_def)
qed

lemma generic_empty_text:
  "parseGenericChunks P [] filePath [[]] = [generic_chunk P filePath [[]] 0]"
  by (simp add: parseGenericChunks_def generic_loop.simps chunkSize_def)

lemma string_of_nat_1: "string_of_nat (Suc 0) = ''1''"
  by (simp add: string_of_nat.simps digit_char_def)

text \<open>
  C7, as the code has it. The empty text splits into one empty line, so every chunker
  ends in the generic fallback with a one-line file: chunking an empty file gives exactly
  one chunk, an empty block on lines 1 to 1 without symbols, for every path and language.
\<close>

theorem empty_file_single_chunk:
  assumes "engine_ok P"
  shows "parseFileIntoChunks P [] filePath language =
           [\<lparr> c_id = filePath @ '':1-1:block'', c_content = [], c_type = ''block'',
              c_symbols = [], c_startLine = 1, c_endLine = 1, c_file = filePath,
              c_language = detectLanguage P filePath \<rparr>]"
proof -
  have g: "parseGenericChunks P [] filePath [[]] =
           [\<lparr> c_id = filePath @ '':1-1:block'', c_content = [], c_type = ''block'',
              c_symbols = [], c_startLine = 1, c_endLine = 1, c_file = filePath,
              c_language = detectLanguage P filePath \<rparr>]"
    by (simp add: generic_empty_text generic_chunk_def Let_def chunkSize_def slice_def
          string_of_nat_1)
  have none: "\<And>pat. exec_all P pat [] = []"
    using exec_all_empty[OF assms] .
  have html: "parseHTMLChunks P [] filePath [[]] = parseGenericChunks P [] filePath [[]]"
    by (simp add: parseHTMLChunks_def none elementPatterns_def)
  have js: "parseJSChunks P [] filePath [[]] = parseGenericChunks P [] filePath [[]]"
    by (simp add: parseJSChunks_def none jsPatterns_def)
  have md: "parseMarkdownChunks P [] filePath [[]] = parseGenericChunks P [] filePath [[]]"
    by (simp add: parseMarkdownChunks_def none)
  have "parseFileIntoChunks P [] filePath language = parseGenericChunks P [] filePath [[]]"
    by (simp add: parseFileIntoChunks_def Let_def html js md)
  then show ?thesis by (simp only: g)
qed

theorem empty_file_single_chunk_witness:
  "engine_ok plain_platform
   \<and> parseFileIntoChunks plain_platform [] ''index.html'' ''html'' =
       [\<lparr> c_id = ''index.html:1-1:block'', c_content = [], c_type = ''block'',
          c_symbols = [], c_startLine = 1, c_endLine = 1, c_file = ''index.html'',
          c_language = ''html'' \<rparr>]"
proof -
  have ok: "engine_ok plain_platform"
    by (simp add: engine_ok_def plain_platform_def)
  have "detectLanguage plain_platform ''index.html'' = ''html''"
    by (simp add: detectLanguage_def plain_platform_def langMap_def toLowerCase_def lower_char_def
          upper_letters_def lower_letters_def)
  with empty_file_single_chunk[OF ok, of "''index.html''" "''html''"] ok
  show ?thesis by simp
qed

theorem empty_file_zero_chunks_counterexample:
  "parseFileIntoChunks plain_platform [] ''styles.css'' ''css'' \<noteq> []"
  by (simp add: parseFileIntoChunks_def generic_empty_text)

section \<open>Properties of the cosine similarity\<close>

lemma cosine_loop_sums:
  "length a = length b \<Longrightarrow> i \<le> length a \<Longrightarrow>
   cosine_loop a b i (d, na, nb) =
     (d + dot (drop i a) (drop i b),
      na + sum_list (map (\<lambda>x. x * x) (drop i a)),
      nb + sum_list (map (\<lambda>x. x * x) (drop i b)))"
proof (induction a b i "(d, na, nb)" arbitrary: d na nb rule: cosine_loop.induct)
  case (1 a b i d na nb)
  show ?case
  proof (cases "i < length a")
    case True
    then have da: "drop i a = a ! i # drop (Suc i) a" and db: "drop i b = b ! i # drop (Suc i) b"
      using 1(2) by (simp_all add: Cons_nth_drop_Suc)
    show ?thesis
      using True 1
      by (subst cosine_loop.simps) (simp add: da db dot_def)
  next
    case False
    with 1 show ?thesis by (subst cosine_loop.simps) (simp add: dot_def)
  qed
qed

lemma cosine_formula:
  "length a = length b \<Longrightarrow> cosineSimilarity a b = js_div (dot a b) (vec_norm a * vec_norm b)"
  by (simp add: cosineSimilarity_def cosine_loop_sums vec_norm_def)

lemma sum_sq_nonneg: "0 \<le> sum_list (map (\<lambda>x. x * x) (a :: real list))"
  by (induction a) auto

lemma cs_step:
  fixes x y D A B :: real
  assumes "0 \<le> A" "0 \<le> B" "D\<^sup>2 \<le> A * B"
  shows "(x * y + D)\<^sup>2 \<le> (x * x + A) * (y * y + B)"
proof -
  have "\<bar>D\<bar> \<le> sqrt A * sqrt B"
    using assms by (metis real_sqrt_abs real_sqrt_le_iff real_sqrt_mult)
  have "2 * ((\<bar>x\<bar> * sqrt B) * (\<bar>y\<bar> * sqrt A)) \<le> (\<bar>x\<bar> * sqrt B)\<^sup>2 + (\<bar>y\<bar> * sqrt A)\<^sup>2"
    using sum_squares_bound[of "\<bar>x\<bar> * sqrt B" "\<bar>y\<bar> * sqrt A"] by (simp add: mult.assoc)
  then have 1: "2 * (\<bar>x\<bar> * \<bar>y\<bar>) * (sqrt A * sqrt B) \<le> x * x * B + A * (y * y)"
    using assms(1,2) by (simp add: power_mult_distrib power2_eq_square[symmetric] algebra_simps)
  have "2 * (x * y) * D \<le> 2 * (\<bar>x\<bar> * \<bar>y\<bar>) * \<bar>D\<bar>"
    by (metis abs_ge_self abs_mult abs_numeral)
  also have "\<dots> \<le> 2 * (\<bar>x\<bar> * \<bar>y\<bar>) * (sqrt A * sqrt B)"
    using \<open>\<bar>D\<bar> \<le> sqrt A * sqrt B\<close> by (simp add: mult_left_mono)
  finally have 2: "2 * (x * y) * D \<le> x * x * B + A * (y * y)" using 1 by simp
  have "(x * y + D)\<^sup>2 = x * x * (y * y) + 2 * (x * y) * D + D\<^sup>2"
    by (simp add: power2_eq_square algebra_simps)
  also have "\<dots> \<le> x * x * (y * y) + (x * x * B + A * (y * y)) + A * B"
    using 2 assms(3) by simp
  also have "\<dots> = (x * x + A) * (y * y + B)" by (simp add: algebra_simps)
  finally show ?thesis .
qed

lemma cauchy_schwarz_list:
  "length a = length b \<Longrightarrow>
   (dot a b)\<^sup>2 \<le> sum_list (map (\<lambda>x. x * x) a) * sum_list (map (\<lambda>x. x * x) b)"
proof (induction a b rule: list_induct2)
  case Nil
  then show ?case by (simp add: dot_def)
next
  case (Cons x xs y ys)
  have "(x * y + dot xs ys)\<^sup>2 \<le> (x * x + sum_list (map (\<lambda>x. x * x) xs)) * (y * y + sum_list (map (\<lambda>x. x * x) ys))"
    by (rule cs_step) (use Cons.IH sum_sq_nonneg in auto)
  then show ?case by (simp add: dot_def)
qed

lemma abs_dot_le:
  assumes "length a = length b"
  shows "\<bar>dot a b\<bar> \<le> vec_norm a * vec_norm b"
proof -
  have "sqrt ((dot a b)\<^sup>2) \<le> sqrt (sum_list (map (\<lambda>x. x * x) a) * sum_list (map (\<lambda>x. x * x) b))"
    using cauchy_schwarz_list[OF assms] by (simp only: real_sqrt_le_iff)
  then show ?thesis by (simp add: vec_norm_def real_sqrt_mult)
qed

lemma dot_commute: "dot a b = dot b a"
  unfolding dot_def
  by (induction a arbitrary: b) (auto simp: mult.commute split: list.splits, case_tac b, auto simp: mult.commute)

lemma cosine_symmetric: "cosineSimilarity a b = cosineSimilarity b a"
  by (cases "length a = length b") (auto simp: cosine_formula dot_commute mult.commute, simp add: cosineSimilarity_def)

lemma cosine_bounded:
  assumes "length a = length b" "vec_norm a \<noteq> 0" "vec_norm b \<noteq> 0"
  shows "\<exists>r. cosineSimilarity a b = Fin r \<and> r = dot a b / (vec_norm a * vec_norm b) \<and> -1 \<le> r \<and> r \<le> 1"
proof -
  have pos: "0 < vec_norm a * vec_norm b"
    using assms(2,3) by (simp add: vec_norm_def sum_sq_nonneg zero_less_mult_iff less_le)
  have "\<bar>dot a b\<bar> / (vec_norm a * vec_norm b) \<le> 1"
    using abs_dot_le[OF assms(1)] pos by (simp add: divide_le_eq_1_pos)
  moreover have "\<bar>vec_norm a * vec_norm b\<bar> = vec_norm a * vec_norm b"
    using pos by (rule abs_of_pos)
  ultimately have "\<bar>dot a b / (vec_norm a * vec_norm b)\<bar> \<le> 1"
    by (simp only: abs_divide)
  then have "- 1 \<le> dot a b / (vec_norm a * vec_norm b) \<and> dot a b / (vec_norm a * vec_norm b) \<le> 1"
    by linarith
  moreover have "cosineSimilarity a b = Fin (dot a b / (vec_norm a * vec_norm b))"
    using assms by (simp add: cosine_formula js_div_def)
  ultimately show ?thesis by blast
qed

lemma cosine_zero_norm:
  assumes "length a = length b" "vec_norm a = 0 \<or> vec_norm b = 0"
  shows "cosineSimilarity a b = NaN"
proof -
  have "\<bar>dot a b\<bar> \<le> 0" using abs_dot_le[OF assms(1)] assms(2) by auto
  then show ?thesis using assms by (auto simp: cosine_formula js_div_def)
qed

lemma cosine_length_mismatch: "length a \<noteq> length b \<Longrightarrow> cosineSimilarity a b = Fin 0"
  by (simp add: cosineSimilarity_def)

text \<open>
  C1. The formula, the symmetry, the range \<open>[-1, 1]\<close> for non-zero vectors and the value 0
  for arrays of different lengths hold (lemmas \<open>cosine_formula\<close>, \<open>cosine_symmetric\<close>,
  \<open>cosine_bounded\<close>, \<open>cosine_length_mismatch\<close>). For a vector of norm zero the code divides
  zero by zero: the result is NaN and not 0 (lemma \<open>cosine_zero_norm\<close> for every such pair),
  here for the zero vector against \<open>[1, 2, 3]\<close>.
\<close>

theorem cosine_zero_vector_is_nan:
  "cosineSimilarity [0, 0, 0] [1, 2, 3] = NaN"
  by (simp add: cosineSimilarity_def cosine_loop.simps js_div_def)

section \<open>Properties of fusion and re-ranking\<close>

lemma set_new_Set_aux: "set (foldl set_add acc xs) = set acc \<union> set xs"
  by (induction xs arbitrary: acc) (auto simp: set_add_def)

lemma distinct_new_Set_aux: "distinct acc \<Longrightarrow> distinct (foldl set_add acc xs)"
  by (induction xs arbitrary: acc) (auto simp: set_add_def)

lemma set_new_Set: "set (new_Set xs) = set xs"
  by (simp add: new_Set_def set_new_Set_aux)

lemma distinct_new_Set: "distinct (new_Set xs)"
  by (simp add: new_Set_def distinct_new_Set_aux)

lemma map_snd_insort_key:
  "map snd (insort_key (\<lambda>p. f (snd p)) x xs) = insort_key f (snd x) (map snd xs)"
  by (induction xs) auto

lemma map_snd_sort_key:
  "map snd (sort_key (\<lambda>p. f (snd p)) xs) = sort_key f (map snd xs)"
  by (induction xs) (auto simp: map_snd_insort_key)

lemma fuseAndRerank_tagged:
  "fuseAndRerank L V S q = map snd (fuse_tagged L V S)"
proof -
  have "map snd (fuse_tagged L V S)
          = sort_key (\<lambda>r. - fusedScore r)
              (map snd (filter (\<lambda>p. fusedScore (snd p) > 0.1)
                 (map (\<lambda>chunkId. (chunkId, fuse_candidate L V S chunkId)) (allChunkIds L V S))))"
    unfolding fuse_tagged_def by (rule map_snd_sort_key[of "\<lambda>r. - fusedScore r"])
  then show ?thesis
    by (simp add: fuseAndRerank_def filter_map comp_def)
qed

lemma set_allChunkIds:
  "set (allChunkIds L V S) = set (keys L) \<union> set (keys V) \<union> set (keys S)"
  by (simp add: allChunkIds_def set_new_Set Un_assoc)

lemma fuse_tagged_set:
  "set (fuse_tagged L V S) =
     {(i, fuse_candidate L V S i) | i.
        i \<in> set (keys L) \<union> set (keys V) \<union> set (keys S)
        \<and> fusedScore (fuse_candidate L V S i) > 0.1}"
  by (auto simp: fuse_tagged_def set_allChunkIds)

lemma fuse_tagged_distinct: "distinct (map fst (fuse_tagged L V S))"
proof -
  let ?xs = "filter (\<lambda>p. fusedScore (snd p) > 0.1)
          (map (\<lambda>chunkId. (chunkId, fuse_candidate L V S chunkId)) (allChunkIds L V S))"
  have "map fst ?xs = filter (\<lambda>i. fusedScore (fuse_candidate L V S i) > 0.1) (allChunkIds L V S)"
    by (simp add: filter_map comp_def)
  then have d: "distinct (map fst ?xs)"
    by (simp add: allChunkIds_def distinct_new_Set)
  have "mset (map fst (fuse_tagged L V S)) = mset (map fst ?xs)"
    by (simp add: fuse_tagged_def)
  then show ?thesis using d by (metis mset_eq_imp_distinct_iff)
qed

lemma fuse_tagged_sorted:
  "sorted_wrt (\<lambda>p q. fusedScore (snd p) \<ge> fusedScore (snd q)) (fuse_tagged L V S)"
proof -
  have "sorted (map (\<lambda>p. - fusedScore (snd p)) (fuse_tagged L V S))"
    unfolding fuse_tagged_def by (rule sorted_sort_key)
  then show ?thesis by (simp add: sorted_map)
qed

lemma fuse_tagged_stable:
  "filter (\<lambda>p. fusedScore (snd p) = k) (fuse_tagged L V S)
     = filter (\<lambda>p. fusedScore (snd p) = k)
         (filter (\<lambda>p. fusedScore (snd p) > 0.1)
          (map (\<lambda>chunkId. (chunkId, fuse_candidate L V S chunkId)) (allChunkIds L V S)))"
proof -
  have "filter (\<lambda>p. - fusedScore (snd p) = - k) (fuse_tagged L V S)
     = filter (\<lambda>p. - fusedScore (snd p) = - k)
         (filter (\<lambda>p. fusedScore (snd p) > 0.1)
          (map (\<lambda>chunkId. (chunkId, fuse_candidate L V S chunkId)) (allChunkIds L V S)))"
   unfolding fuse_tagged_def by (rule sort_key_stable)
  then show ?thesis by simp
qed

lemma fuse_candidate_formula:
  "fusedScore (fuse_candidate L V S i) =
     0.3 * max 0 (min 1 (((case map_get L i of None \<Rightarrow> 0 | Some l \<Rightarrow> score l) - 0) / (10 - 0)))
     + 0.4 * (case map_get V i of None \<Rightarrow> 0 | Some v \<Rightarrow> v)
     + 0.3 * (case map_get S i of None \<Rightarrow> 0 | Some s \<Rightarrow> s)"
  by (simp add: fuse_candidate_def Let_def normalizeScore_def)

lemma fuse_tagged_tie_example:
  "fuse_tagged tie_lexical [] tie_structural
     = [(''b'', \<lparr>chunk = EmptyObject, lexicalScore = 5, vectorScore = 0, structuralScore = 0,
                fusedScore = 3 / 20, reason = ''text match (x)''\<rparr>),
        (''a'', \<lparr>chunk = EmptyObject, lexicalScore = 0, vectorScore = 0, structuralScore = 1 / 2,
                fusedScore = 3 / 20, reason = ''structural match''\<rparr>),
        (''c'', \<lparr>chunk = EmptyObject, lexicalScore = 0, vectorScore = 0, structuralScore = 1 / 2,
                fusedScore = 3 / 20, reason = ''structural match''\<rparr>)]"
  by (simp add: fuse_tagged_def allChunkIds_def new_Set_def set_add_def keys_def fuse_candidate_def
        map_get_def normalizeScore_def explainScore_def Let_def tie_lexical_def tie_structural_def)

text \<open>
  C3, as the code has it. For every candidate id of the union of the three key sets the fused
  score is \<open>0.3 * clamp((lexical - 0) / (10 - 0), 0, 1) + 0.4 * vector + 0.3 * structural\<close>
  (a missing score counts as 0); the returned list holds exactly the candidates whose fused
  score is above 0.1, each once, in descending order of the fused score; candidates with
  equal fused scores keep the order in which their ids were enumerated (keys of the lexical
  map, then of the vector map, then of the structural map). The chunk id takes no part in
  the order.
\<close>

theorem fuse_order_by_enumeration:
  "fuseAndRerank L V S q = map snd (fuse_tagged L V S)
   \<and> set (fuse_tagged L V S) =
       {(i, fuse_candidate L V S i) | i.
          i \<in> set (keys L) \<union> set (keys V) \<union> set (keys S)
          \<and> fusedScore (fuse_candidate L V S i) > 0.1}
   \<and> distinct (map fst (fuse_tagged L V S))
   \<and> fusedScore (fuse_candidate L V S i) =
       0.3 * max 0 (min 1 (((case map_get L i of None \<Rightarrow> 0 | Some l \<Rightarrow> score l) - 0) / (10 - 0)))
       + 0.4 * (case map_get V i of None \<Rightarrow> 0 | Some v \<Rightarrow> v)
       + 0.3 * (case map_get S i of None \<Rightarrow> 0 | Some s \<Rightarrow> s)
   \<and> sorted_wrt (\<lambda>p q. fusedScore (snd p) \<ge> fusedScore (snd q)) (fuse_tagged L V S)
   \<and> filter (\<lambda>p. fusedScore (snd p) = k) (fuse_tagged L V S)
       = filter (\<lambda>p. fusedScore (snd p) = k)
           (filter (\<lambda>p. fusedScore (snd p) > 0.1)
              (map (\<lambda>chunkId. (chunkId, fuse_candidate L V S chunkId)) (allChunkIds L V S)))"
  using fuseAndRerank_tagged[of L V S q] fuse_tagged_set[of L V S] fuse_tagged_distinct[of L V S]
    fuse_candidate_formula[of L V S i] fuse_tagged_sorted[of L V S] fuse_tagged_stable[of k L V S]
  by (intro conjI)

theorem fuse_order_by_enumeration_witness:
  "map fst (filter (\<lambda>p. fusedScore (snd p) = 3 / 20) (fuse_tagged tie_lexical [] tie_structural))
     = [''b'', ''a'', ''c'']"
proof -
  have "filter (\<lambda>p. fusedScore (snd p) = 3 / 20) (fuse_tagged tie_lexical [] tie_structural)
       = filter (\<lambda>p. fusedScore (snd p) = 3 / 20)
           (filter (\<lambda>p. fusedScore (snd p) > 0.1)
              (map (\<lambda>chunkId. (chunkId, fuse_candidate tie_lexical [] tie_structural chunkId))
                   (allChunkIds tie_lexical [] tie_structural)))"
    using fuse_order_by_enumeration[of tie_lexical "[]" tie_structural "[]" "[]" "3 / 20"]
    by blast
  then show ?thesis
    by (simp add: allChunkIds_def new_Set_def set_add_def keys_def fuse_candidate_def
        map_get_def normalizeScore_def Let_def tie_lexical_def tie_structural_def)
qed

theorem fuse_tie_break_by_id_counterexample:
  "\<not> sorted_wrt by_score_then_id (fuse_tagged tie_lexical [] tie_structural)
   \<and> \<not> sorted_wrt by_score_then_id_desc (fuse_tagged tie_lexical [] tie_structural)"
  unfolding fuse_tagged_tie_example
  by (simp add: by_score_then_id_def by_score_then_id_desc_def)

section \<open>Properties of the query path\<close>

lemma cosine_not_infinite: "cosineSimilarity a b \<noteq> PosInf \<and> cosineSimilarity a b \<noteq> NegInf"
proof (cases "length a = length b")
  case True
  show ?thesis
  proof (cases "vec_norm a * vec_norm b = 0")
    case z: True
    then have "cosineSimilarity a b = NaN" using cosine_zero_norm[OF True] by auto
    then show ?thesis by simp
  next
    case False
    then show ?thesis using True by (simp add: cosine_formula js_div_def)
  qed
next
  case False
  then show ?thesis by (simp add: cosineSimilarity_def)
qed

lemma getOrCreateRepository_tables:
  "getOrCreateRepository w name (db, n) = (res, (db', n')) \<Longrightarrow>
   chunks db' = chunks db \<and> symbols db' = symbols db \<and> chunks_fts db' = chunks_fts db
   \<and> symbol_seq db' = symbol_seq db"
  by (auto simp: getOrCreateRepository_def Let_def split: if_splits option.splits)

lemma getOrCreateRepository_existing:
  "find (\<lambda>r. r_name r = name) (repositories db) \<noteq> None \<Longrightarrow>
   getOrCreateRepository w name (db, n) = (res, (db', n')) \<Longrightarrow> db' = db"
  by (auto simp: getOrCreateRepository_def Let_def split: if_splits option.splits)

lemma getOrCreateRepository_repositories:
  "getOrCreateRepository w name (db, n) = (res, (db', n')) \<Longrightarrow>
   db' = db \<or>
   (find (\<lambda>r. r_name r = name) (repositories db) = None \<and>
    db' = db\<lparr> repositories := repositories db @
                [\<lparr> r_id = repo_seq db + 1, r_name = name, r_lastCommitHash = None,
                   r_lastIndexed = None, r_totalChunks = 0 \<rparr>],
              repo_seq := repo_seq db + 1 \<rparr>)"
  by (auto simp: getOrCreateRepository_def Let_def split: if_splits option.splits)

lemma lexicalSearch_readonly: "fst (snd (lexicalSearch w repoId query (db, n))) = db"
  by (simp add: lexicalSearch_def Let_def split: option.splits)

lemma vectorSearch_readonly: "fst (snd (vectorSearch w repoId query (db, n))) = db"
  by (simp add: vectorSearch_def Let_def)

lemma structuralSearch_readonly: "fst (snd (structuralSearch w repoId query (db, n))) = db"
  by (simp add: structuralSearch_def Let_def)

lemma searchRelevantChunks_db:
  "fst (snd (searchRelevantChunks w repoName query limit (db, n)))
     = fst (snd (getOrCreateRepository w repoName (db, n)))"
proof -
  obtain r1 db1 n1 where g: "getOrCreateRepository w repoName (db, n) = (r1, (db1, n1))"
    by (metis prod.exhaust)
  show ?thesis
  proof (cases r1)
    case (Inl e)
    then show ?thesis by (simp add: searchRelevantChunks_def g)
  next
    case (Inr repoId)
    obtain r2 db2 n2 where l: "lexicalSearch w repoId query (db1, n1) = (r2, (db2, n2))"
      by (metis prod.exhaust)
    have d2: "db2 = db1" using lexicalSearch_readonly[of w repoId query db1 n1] l by simp
    obtain r3 db3 n3 where v: "vectorSearch w repoId query (db2, n2) = (r3, (db3, n3))"
      by (metis prod.exhaust)
    have d3: "db3 = db2" using vectorSearch_readonly[of w repoId query db2 n2] v by simp
    obtain r4 db4 n4 where s: "structuralSearch w repoId query (db3, n3) = (r4, (db4, n4))"
      by (metis prod.exhaust)
    have d4: "db4 = db3" using structuralSearch_readonly[of w repoId query db3 n3] s by simp
    show ?thesis
      using Inr g l v s d2 d3 d4
      by (simp add: searchRelevantChunks_def split: sum.splits)
  qed
qed

lemma fuseAndRerank_chunk:
  "r \<in> set (fuseAndRerank L V S q) \<Longrightarrow> chunk r = EmptyObject"
  by (auto simp: fuseAndRerank_def fuse_candidate_def Let_def)

lemma searchRelevantChunks_results:
  "searchRelevantChunks w repoName query limit st = (Inr results, st') \<Longrightarrow>
   \<exists>L V S. results = take limit (fuseAndRerank L V S query)"
  by (auto simp: searchRelevantChunks_def split: sum.splits prod.splits)


lemma search_readme_title:
  "searchRelevantChunks quiet_world ''owner/name'' ''title'' 10 (readme_db, 0)
     = (Inr [\<lparr>chunk = EmptyObject, lexicalScore = 0, vectorScore = 0, structuralScore = 1 / 2,
               fusedScore = 3 / 20, reason = ''structural match''\<rparr>],
        (readme_db, 3))"
  by (simp add: searchRelevantChunks_def getOrCreateRepository_def quiet_world_def readme_db_def
      lexicalSearch_def vectorSearch_def structuralSearch_def Let_def fuseAndRerank_def allChunkIds_def
      new_Set_def set_add_def keys_def fuse_candidate_def map_get_def normalizeScore_def explainScore_def
      symbol_boost_def toLowerCase_def lower_char_def upper_letters_def lower_letters_def)

lemma search_other_repo:
  "searchRelevantChunks quiet_world ''other/repo'' ''title'' 10 (readme_db, 0)
     = (Inr [],
        (readme_db\<lparr> repositories := repositories readme_db @
             [\<lparr> r_id = 2, r_name = ''other/repo'', r_lastCommitHash = None,
                r_lastIndexed = None, r_totalChunks = 0 \<rparr>],
           repo_seq := 2 \<rparr>, 4))"
  by (simp add: searchRelevantChunks_def getOrCreateRepository_def quiet_world_def readme_db_def
      lexicalSearch_def vectorSearch_def structuralSearch_def Let_def fuseAndRerank_def allChunkIds_def
      new_Set_def set_add_def keys_def fuse_candidate_def map_get_def normalizeScore_def explainScore_def
      symbol_boost_def toLowerCase_def lower_char_def upper_letters_def lower_letters_def)

text \<open>
  C10. Every result that \<open>searchRelevantChunks\<close> returns carries the empty object in its
  \<open>chunk\<close> field: the results are a prefix of the list \<open>fuseAndRerank\<close> builds, and nothing
  fills the field afterwards. Only the scores and the reason are set.
\<close>

theorem search_results_chunk_empty:
  assumes "searchRelevantChunks w repoName query limit st = (Inr results, st')"
  shows "\<forall>r \<in> set results. chunk r = EmptyObject"
proof
  fix r
  assume r: "r \<in> set results"
  from searchRelevantChunks_results[OF assms] obtain L V S
    where "results = take limit (fuseAndRerank L V S query)" by blast
  with r have "r \<in> set (fuseAndRerank L V S query)"
    by (auto dest: in_set_takeD)
  then show "chunk r = EmptyObject" by (rule fuseAndRerank_chunk)
qed

theorem search_results_chunk_empty_witness:
  "fst (searchRelevantChunks quiet_world ''owner/name'' ''title'' 10 (readme_db, 0))
     = Inr [\<lparr>chunk = EmptyObject, lexicalScore = 0, vectorScore = 0, structuralScore = 1 / 2,
              fusedScore = 3 / 20, reason = ''structural match''\<rparr>]
   \<and> list_all (\<lambda>r. chunk r = EmptyObject)
        [\<lparr>chunk = EmptyObject, lexicalScore = 0, vectorScore = 0, structuralScore = 1 / 2,
              fusedScore = 3 / 20, reason = ''structural match''\<rparr>]"
  using search_results_chunk_empty[OF search_readme_title]
  by (simp add: search_readme_title)

text \<open>
  C9, as the code has it. A query never changes the chunk, symbol and full-text tables.
  It starts with \<open>getOrCreateRepository\<close>: when the repository has a record, all persisted
  state is unchanged; when it has none, the query inserts one repository row (the next id,
  the name, no commit, no date, zero chunks), and does so whenever the query itself
  succeeds.
\<close>

theorem search_inserts_only_repository_row:
  assumes "searchRelevantChunks w repoName query limit (db, n) = (res, (db', n'))"
  shows "chunks db' = chunks db \<and> symbols db' = symbols db \<and> chunks_fts db' = chunks_fts db
         \<and> (find (\<lambda>r. r_name r = repoName) (repositories db) \<noteq> None \<longrightarrow> db' = db)
         \<and> (repositories db' = repositories db
              \<or> repositories db' = repositories db @
                    [\<lparr> r_id = repo_seq db + 1, r_name = repoName, r_lastCommitHash = None,
                       r_lastIndexed = None, r_totalChunks = 0 \<rparr>])
         \<and> (find (\<lambda>r. r_name r = repoName) (repositories db) = None \<and> (\<exists>results. res = Inr results)
              \<longrightarrow> repositories db' = repositories db @
                    [\<lparr> r_id = repo_seq db + 1, r_name = repoName, r_lastCommitHash = None,
                       r_lastIndexed = None, r_totalChunks = 0 \<rparr>])"
proof -
  obtain r1 db1 n1 where g: "getOrCreateRepository w repoName (db, n) = (r1, (db1, n1))"
    by (metis prod.exhaust)
  have same: "db' = db1"
    using searchRelevantChunks_db[of w repoName query limit db n] assms g by simp
  have tables: "chunks db' = chunks db \<and> symbols db' = symbols db \<and> chunks_fts db' = chunks_fts db"
    using getOrCreateRepository_tables[OF g] same by simp
  have existing: "find (\<lambda>r. r_name r = repoName) (repositories db) \<noteq> None \<longrightarrow> db' = db"
    using getOrCreateRepository_existing[OF _ g] same by blast
  have either: "repositories db' = repositories db
              \<or> repositories db' = repositories db @
                    [\<lparr> r_id = repo_seq db + 1, r_name = repoName, r_lastCommitHash = None,
                       r_lastIndexed = None, r_totalChunks = 0 \<rparr>]"
    using getOrCreateRepository_repositories[OF g] same by auto
  have created: "repositories db' = repositories db @
                    [\<lparr> r_id = repo_seq db + 1, r_name = repoName, r_lastCommitHash = None,
                       r_lastIndexed = None, r_totalChunks = 0 \<rparr>]"
    if none: "find (\<lambda>r. r_name r = repoName) (repositories db) = None" and ok: "\<exists>results. res = Inr results"
  proof -
    from ok assms g obtain repoId where "r1 = Inr repoId"
      by (cases r1) (auto simp: searchRelevantChunks_def)
    with g none have "repositories db1 = repositories db @
                    [\<lparr> r_id = repo_seq db + 1, r_name = repoName, r_lastCommitHash = None,
                       r_lastIndexed = None, r_totalChunks = 0 \<rparr>]"
      by (auto simp: getOrCreateRepository_def Let_def split: if_splits)
    then show ?thesis using same by simp
  qed
  from tables existing either created show ?thesis by blast
qed

theorem search_inserts_only_repository_row_witness:
  "find (\<lambda>r. r_name r = ''owner/name'') (repositories readme_db) \<noteq> None
   \<and> snd (searchRelevantChunks quiet_world ''owner/name'' ''title'' 10 (readme_db, 0)) = (readme_db, 3)
   \<and> find (\<lambda>r. r_name r = ''other/repo'') (repositories readme_db) = None
   \<and> repositories (fst (snd (searchRelevantChunks quiet_world ''other/repo'' ''title'' 10 (readme_db, 0))))
       = repositories readme_db @
           [\<lparr> r_id = repo_seq readme_db + 1, r_name = ''other/repo'', r_lastCommitHash = None,
              r_lastIndexed = None, r_totalChunks = 0 \<rparr>]"
proof -
  have a: "find (\<lambda>r. r_name r = ''owner/name'') (repositories readme_db) \<noteq> None"
    by (simp add: readme_db_def)
  have b: "find (\<lambda>r. r_name r = ''other/repo'') (repositories readme_db) = None"
    by (simp add: readme_db_def)
  from search_inserts_only_repository_row[OF search_other_repo] b
  have "repositories (readme_db\<lparr> repositories := repositories readme_db @
             [\<lparr> r_id = 2, r_name = ''other/repo'', r_lastCommitHash = None,
                r_lastIndexed = None, r_totalChunks = 0 \<rparr>],
           repo_seq := 2 \<rparr>)
       = repositories readme_db @
           [\<lparr> r_id = repo_seq readme_db + 1, r_name = ''other/repo'', r_lastCommitHash = None,
              r_lastIndexed = None, r_totalChunks = 0 \<rparr>]"
    by blast
  then show ?thesis
    using a b by (simp add: search_readme_title search_other_repo)
qed

theorem search_read_only_counterexample:
  "find (\<lambda>r. r_name r = ''other/repo'') (repositories readme_db) = None
   \<and> repositories (fst (snd (searchRelevantChunks quiet_world ''other/repo'' ''title'' 10 (readme_db, 0))))
       \<noteq> repositories readme_db"
  by (simp add: search_other_repo) (simp add: readme_db_def)

section \<open>Properties of the indexing passes\<close>

subsection \<open>The advanced index\<close>

lemma insert_symbols_keeps:
  "insert_symbols w cid ss (db, n) = (res, (db', n')) \<Longrightarrow>
   repositories db' = repositories db \<and> chunks db' = chunks db \<and> chunks_fts db' = chunks_fts db
   \<and> (\<exists>added. symbols db' = symbols db @ added)"
proof (induction ss arbitrary: db n)
  case Nil
  then show ?case by simp
next
  case (Cons s ss)
  show ?case
  proof (cases "db_fault w n")
    case True
    with Cons.prems show ?thesis by simp
  next
    case False
    with Cons.prems Cons.IH show ?thesis by fastforce
  qed
qed

lemma store_chunk_keeps:
  assumes "store_chunk w repoId p lang c (db, n) = (res, (db', n'))"
  shows "repositories db' = repositories db \<and> (\<exists>added. symbols db' = symbols db @ added)"
proof (cases "db_fault w n \<or> c_id c \<in> set (map ch_id (chunks db))")
  case True
  with assms show ?thesis by (auto simp: store_chunk_def Let_def)
next
  case False
  let ?db1 = "db\<lparr> chunks := chunks db @
                 [\<lparr> ch_id = c_id c, ch_repositoryId = repoId,
                    ch_filePath = p, ch_content = c_content c,
                    ch_chunkType = c_type c, ch_language = lang,
                    ch_startLine = c_startLine c, ch_endLine = c_endLine c,
                    ch_embedding = generateEmbedding w (c_content c),
                    ch_termFreq = calculateTermFrequencies (c_content c) \<rparr>] \<rparr>"
  obtain r2 db2 n2 where i: "insert_symbols w (c_id c) (c_symbols c) (?db1, n + 1) = (r2, (db2, n2))"
    by (metis prod.exhaust)
  from insert_symbols_keeps[OF i]
  have k: "repositories db2 = repositories db" "\<exists>added. symbols db2 = symbols db @ added"
    by auto
  from assms False i have "db' = db2 \<or> (\<exists>x. db' = db2\<lparr> chunks_fts := x \<rparr>)"
    by (auto simp: store_chunk_def Let_def split: sum.splits if_splits)
  with k show ?thesis by auto
qed

lemma store_chunks_keeps:
  "store_chunks w repoId p lang cs t (db, n) = (res, (db', n')) \<Longrightarrow>
   repositories db' = repositories db \<and> (\<exists>added. symbols db' = symbols db @ added)"
proof (induction cs arbitrary: db n t)
  case Nil
  then show ?case by simp
next
  case (Cons c cs)
  obtain r1 db1 n1 where s: "store_chunk w repoId p lang c (db, n) = (r1, (db1, n1))"
    by (metis prod.exhaust)
  note k = store_chunk_keeps[OF s]
  show ?case
  proof (cases r1)
    case (Inl e)
    with Cons.prems s k show ?thesis by simp
  next
    case (Inr u)
    with Cons.prems s have "store_chunks w repoId p lang cs (t + 1) (db1, n1) = (res, (db', n'))"
      by simp
    from Cons.IH[OF this] k show ?thesis by auto
  qed
qed

lemma index_files_keeps:
  "index_files P w repoId files t (db, n) = (res, (db', n')) \<Longrightarrow>
   repositories db' = repositories db \<and> (\<exists>added. symbols db' = symbols db @ added)"
proof (induction files arbitrary: db n t)
  case Nil
  then show ?case by simp
next
  case (Cons f files)
  obtain p fl where f: "f = (p, fl)" by (cases f)
  show ?case
  proof (cases fl)
    case None
    with Cons.prems f show ?thesis by simp
  next
    case (Some content)
    obtain r1 db1 n1 where s: "store_chunks w repoId p (detectLanguage P p)
        (parseFileIntoChunks P content p (detectLanguage P p)) t (db, n) = (r1, (db1, n1))"
      by (metis prod.exhaust)
    note k = store_chunks_keeps[OF s]
    show ?thesis
    proof (cases r1)
      case (Inl e)
      with Cons.prems f Some s k show ?thesis by (simp add: Let_def)
    next
      case (Inr t1)
      with Cons.prems f Some s have "index_files P w repoId files t1 (db1, n1) = (res, (db', n'))"
        by (simp add: Let_def)
      from Cons.IH[OF this] k show ?thesis by auto
    qed
  qed
qed

lemma clear_existing_keeps:
  "clear_existing w repoId repoName (db, n) = (res, (db', n')) \<Longrightarrow>
   repositories db' = repositories db \<and> symbols db' = symbols db"
  by (auto simp: clear_existing_def Let_def split: if_splits)

lemma find_append_fresh:
  "find P (xs @ [y]) = (case find P xs of Some x \<Rightarrow> Some x | None \<Rightarrow> if P y then Some y else None)"
  by (induction xs) auto

lemma getOrCreateRepository_stored:
  assumes "getOrCreateRepository w repoName (db, n) = (res, (db', n'))"
  shows "stored_commit db' name = stored_commit db name \<and> symbols db' = symbols db"
proof -
  from getOrCreateRepository_repositories[OF assms] getOrCreateRepository_tables[OF assms]
  show ?thesis
    by (auto simp: stored_commit_def find_append_fresh split: option.splits if_splits)
qed


lemma find_map_update:
  assumes "\<And>r. P (f r) = P r"
  shows "find P (map f xs) = map_option f (find P xs)"
  using assms by (induction xs) auto

lemma index_pass_failure_cases:
  assumes "index_pass P w repoName branch db = (Inl e, db')"
      and "e \<noteq> CleanupFailure \<or> rm_ok w 1"
  shows "\<forall>name. stored_commit db' name = stored_commit db name"
proof (cases "rm_ok w 0")
  case False
  with assms show ?thesis by (simp add: index_pass_def)
next
  case rm0: True
  show ?thesis
  proof (cases "source w repoName branch")
    case None
    with assms rm0 show ?thesis by (simp add: index_pass_def)
  next
    case (Some co)
    obtain r1 db1 n1 where g: "getOrCreateRepository w repoName (db, 0) = (r1, (db1, n1))"
      by (metis prod.exhaust)
    have s1: "\<forall>name. stored_commit db1 name = stored_commit db name"
      using getOrCreateRepository_stored[OF g] by simp
    show ?thesis
    proof (cases r1)
      case (Inl e1)
      with assms rm0 Some g s1 show ?thesis by (simp add: index_pass_def)
    next
      case (Inr repoId)
      obtain r2 db2 n2 where c: "clear_existing w repoId repoName (db1, n1) = (r2, (db2, n2))"
        by (metis prod.exhaust)
      have s2: "repositories db2 = repositories db1"
        using clear_existing_keeps[OF c] by simp
      show ?thesis
      proof (cases r2)
        case (Inl e2)
        with assms rm0 Some g Inr c s1 s2 show ?thesis
          by (simp add: index_pass_def stored_commit_def)
      next
        case r2: (Inr u)
        obtain r3 db3 n3 where i: "index_files P w repoId (co_files co) 0 (db2, n2) = (r3, (db3, n3))"
          by (metis prod.exhaust)
        have s3: "repositories db3 = repositories db2"
          using index_files_keeps[OF i] by simp
        show ?thesis
        proof (cases r3)
          case (Inl e3)
          with assms rm0 Some g Inr c r2 i s1 s2 s3 show ?thesis
            by (simp add: index_pass_def stored_commit_def)
        next
          case r3: (Inr t)
          with assms rm0 Some g Inr c r2 i s1 s2 s3 show ?thesis
            by (auto simp: index_pass_def stored_commit_def Let_def split: if_splits)
        qed
      qed
    qed
  qed
qed

lemma indexRepository_failure_keeps_commit:
  assumes "indexRepository P w repoName branch db = (Inl e, db')"
      and "e \<noteq> CleanupFailure"
  shows "stored_commit db' name = stored_commit db name"
proof -
  from assms obtain e0 where p: "index_pass P w repoName branch db = (Inl e0, db')"
      and e: "e = (if rm_ok w 2 then e0 else CleanupFailure)"
    by (auto simp: indexRepository_def split: sum.splits prod.splits if_splits)
  from e assms(2) have "e0 \<noteq> CleanupFailure" by (auto split: if_splits)
  with index_pass_failure_cases[OF p] show ?thesis by simp
qed


lemma index_pass_keeps_symbols:
  assumes "index_pass P w repoName branch db = (res, db')"
  shows "\<exists>added. symbols db' = symbols db @ added"
proof (cases "rm_ok w 0")
  case False
  with assms show ?thesis by (simp add: index_pass_def)
next
  case rm0: True
  show ?thesis
  proof (cases "source w repoName branch")
    case None
    with assms rm0 show ?thesis by (simp add: index_pass_def)
  next
    case (Some co)
    obtain r1 db1 n1 where g: "getOrCreateRepository w repoName (db, 0) = (r1, (db1, n1))"
      by (metis prod.exhaust)
    have s1: "symbols db1 = symbols db"
      using getOrCreateRepository_tables[OF g] by simp
    show ?thesis
    proof (cases r1)
      case (Inl e1)
      with assms rm0 Some g s1 show ?thesis by (simp add: index_pass_def)
    next
      case (Inr repoId)
      obtain r2 db2 n2 where c: "clear_existing w repoId repoName (db1, n1) = (r2, (db2, n2))"
        by (metis prod.exhaust)
      have s2: "symbols db2 = symbols db1"
        using clear_existing_keeps[OF c] by simp
      show ?thesis
      proof (cases r2)
        case (Inl e2)
        with assms rm0 Some g Inr c s1 s2 show ?thesis by (simp add: index_pass_def)
      next
        case r2: (Inr u)
        obtain r3 db3 n3 where i: "index_files P w repoId (co_files co) 0 (db2, n2) = (r3, (db3, n3))"
          by (metis prod.exhaust)
        from index_files_keeps[OF i] obtain added where s3: "symbols db3 = symbols db2 @ added"
          by blast
        from assms rm0 Some g Inr c r2 i
        have "symbols db' = symbols db3"
          by (cases r3) (auto simp: index_pass_def Let_def update_metadata_def split: if_splits)
        with s1 s2 s3 show ?thesis by simp
      qed
    qed
  qed
qed

subsection \<open>The file-level index\<close>

lemma getOrCreateRepository_basic_cases:
  assumes "getOrCreateRepository_basic w repoName (db, n) = (res, (db', n'))"
  shows "b_files db' = b_files db \<and>
         (db' = db \<or>
          (find (\<lambda>r. br_name r = repoName) (b_repositories db) = None \<and>
           b_repositories db' = b_repositories db @
             [\<lparr> br_id = next_rowid (map br_id (b_repositories db)), br_name = repoName,
                br_lastCommitHash = None, br_lastIndexed = Some (bw_now w), br_totalFiles = 0 \<rparr>]))"
  using assms
  by (auto simp: getOrCreateRepository_basic_def Let_def split: if_splits option.splits)

lemma getOrCreateRepository_basic_stored:
  assumes "getOrCreateRepository_basic w repoName (db, n) = (res, (db', n'))"
  shows "stored_commit_basic db' name = stored_commit_basic db name"
  using getOrCreateRepository_basic_cases[OF assms]
  by (auto simp: stored_commit_basic_def find_append_fresh split: option.splits if_splits)

lemma getOrCreateRepository_basic_found:
  assumes "getOrCreateRepository_basic w repoName (db, n) = (Inr repoId, (db', n'))"
  shows "\<exists>r. find (\<lambda>r. br_name r = repoName) (b_repositories db') = Some r \<and> br_id r = repoId"
  using assms
  by (auto simp: getOrCreateRepository_basic_def Let_def find_append_fresh
           split: if_splits option.splits)

lemma indexFile_keeps:
  "indexFile w repoId p fl (db, n) = (res, (db', n')) \<Longrightarrow> b_repositories db' = b_repositories db"
  by (auto simp: indexFile_def Let_def split: option.splits if_splits)

lemma index_files_basic_keeps:
  "index_files_basic w repoId files k (db, n) = (k', (db', n')) \<Longrightarrow>
   b_repositories db' = b_repositories db"
proof (induction files arbitrary: db n k)
  case Nil
  then show ?case by simp
next
  case (Cons f files)
  obtain p fl where f: "f = (p, fl)" by (cases f)
  obtain r1 db1 n1 where i: "indexFile w repoId p fl (db, n) = (r1, (db1, n1))"
    by (metis prod.exhaust)
  note k1 = indexFile_keeps[OF i]
  from Cons.prems f i obtain k1' where
    "index_files_basic w repoId files k1' (db1, n1) = (k', (db', n'))"
    by (cases r1) auto
  from Cons.IH[OF this] k1 show ?case by simp
qed

lemma index_pass_basic_failure:
  assumes "index_pass_basic w repoId repoName branch (db, n) = (Inl e, db')"
      and "e \<noteq> CleanupFailure \<or> bw_rm_ok w 1"
  shows "b_repositories db' = b_repositories db"
proof (cases "bw_rm_ok w 0")
  case False
  with assms show ?thesis by (simp add: index_pass_basic_def)
next
  case rm0: True
  show ?thesis
  proof (cases "bw_clone w repoName branch")
    case None
    with assms rm0 show ?thesis by (simp add: index_pass_basic_def)
  next
    case (Some co)
    show ?thesis
    proof (cases "bw_db_fault w n")
      case True
      with assms rm0 Some show ?thesis by (simp add: index_pass_basic_def)
    next
      case False
      let ?db1 = "db\<lparr> b_files := filter (\<lambda>f. fi_repositoryId f \<noteq> repoId) (b_files db) \<rparr>"
      obtain k db2 n2 where i: "index_files_basic w repoId (bco_files co) 0 (?db1, n + 1) = (k, (db2, n2))"
        by (metis prod.exhaust)
      have "b_repositories db2 = b_repositories db"
        using index_files_basic_keeps[OF i] by simp
      with assms rm0 Some False i show ?thesis
        by (auto simp: index_pass_basic_def Let_def split: if_splits)
    qed
  qed
qed

lemma indexRepository_basic_failure_keeps_commit:
  assumes "indexRepository_basic w repoName branch db = (Inl e, db')"
      and "e \<noteq> CleanupFailure"
  shows "stored_commit_basic db' name = stored_commit_basic db name"
proof -
  obtain r1 db1 n1 where g: "getOrCreateRepository_basic w repoName (db, 0) = (r1, (db1, n1))"
    by (metis prod.exhaust)
  note s1 = getOrCreateRepository_basic_stored[OF g, of name]
  show ?thesis
  proof (cases r1)
    case (Inl e1)
    with assms g s1 show ?thesis by (simp add: indexRepository_basic_def)
  next
    case (Inr repoId)
    with assms g obtain e0 where p: "index_pass_basic w repoId repoName branch (db1, n1) = (Inl e0, db')"
      and e: "e = (if bw_rm_ok w 2 then e0 else CleanupFailure)"
      by (auto simp: indexRepository_basic_def split: sum.splits prod.splits if_splits)
    from e assms(2) have "e0 \<noteq> CleanupFailure" by (auto split: if_splits)
    with index_pass_basic_failure[OF p] have "b_repositories db' = b_repositories db1" by simp
    with s1 show ?thesis by (simp add: stored_commit_basic_def)
  qed
qed

lemma index_pass_basic_success:
  assumes "index_pass_basic w repoId repoName branch (db, n) = (Inr u, db')"
  shows "\<exists>co k. bw_clone w repoName branch = Some co \<and>
           b_repositories db' =
             map (\<lambda>r. if br_id r = repoId
                    then r\<lparr> br_lastCommitHash := bco_head co,
                            br_lastIndexed := Some (bw_now w),
                            br_totalFiles := k \<rparr>
                    else r) (b_repositories db)"
proof -
  from assms obtain co where co: "bw_clone w repoName branch = Some co"
    by (auto simp: index_pass_basic_def split: if_splits option.splits)
  let ?db1 = "db\<lparr> b_files := filter (\<lambda>f. fi_repositoryId f \<noteq> repoId) (b_files db) \<rparr>"
  obtain k db2 n2 where i: "index_files_basic w repoId (bco_files co) 0 (?db1, n + 1) = (k, (db2, n2))"
    by (metis prod.exhaust)
  have r: "b_repositories db2 = b_repositories db"
    using index_files_basic_keeps[OF i] by simp
  from assms co i have "db' = update_metadata_basic repoId (bco_head co) (bw_now w) k db2"
    by (auto simp: index_pass_basic_def Let_def split: if_splits)
  with r co show ?thesis by (auto simp: update_metadata_basic_def)
qed

lemma indexRepository_basic_success_commit:
  assumes "indexRepository_basic w repoName branch db = (Inr u, db')"
  shows "\<exists>co. bw_clone w repoName branch = Some co \<and> stored_commit_basic db' repoName = bco_head co"
proof -
  obtain r1 db1 n1 where g: "getOrCreateRepository_basic w repoName (db, 0) = (r1, (db1, n1))"
    by (metis prod.exhaust)
  from assms g obtain repoId where r1: "r1 = Inr repoId"
    by (cases r1) (auto simp: indexRepository_basic_def)
  from assms g r1 have p: "index_pass_basic w repoId repoName branch (db1, n1) = (Inr (), db')"
    by (auto simp: indexRepository_basic_def split: sum.splits prod.splits if_splits)
  from getOrCreateRepository_basic_found[OF g[unfolded r1]] obtain r where
    r: "find (\<lambda>r. br_name r = repoName) (b_repositories db1) = Some r" "br_id r = repoId" by blast
  from index_pass_basic_success[OF p] obtain co k where co: "bw_clone w repoName branch = Some co"
    and rs: "b_repositories db' =
             map (\<lambda>r. if br_id r = repoId
                    then r\<lparr> br_lastCommitHash := bco_head co,
                            br_lastIndexed := Some (bw_now w),
                            br_totalFiles := k \<rparr>
                    else r) (b_repositories db1)" by blast
  have "find (\<lambda>r. br_name r = repoName) (b_repositories db') =
          map_option (\<lambda>r. if br_id r = repoId
                    then r\<lparr> br_lastCommitHash := bco_head co,
                            br_lastIndexed := Some (bw_now w),
                            br_totalFiles := k \<rparr>
                    else r) (find (\<lambda>r. br_name r = repoName) (b_repositories db1))"
    unfolding rs by (rule find_map_update) simp
  with r co show ?thesis by (simp add: stored_commit_basic_def)
qed


subsection \<open>Concrete passes\<close>

lemma notes_chunks:
  "parseFileIntoChunks plain_platform ''hello'' ''notes.txt'' ''text''
     = [\<lparr> c_id = ''notes.txt:1-1:block'', c_content = ''hello'', c_type = ''block'',
           c_symbols = [], c_startLine = 1, c_endLine = 1, c_file = ''notes.txt'',
           c_language = ''text'' \<rparr>]"
  by (simp add: parseFileIntoChunks_def parseGenericChunks_def generic_loop.simps chunkSize_def
        generic_chunk_def Let_def slice_def string_of_nat_1 detectLanguage_def plain_platform_def
        newline_def langMap_def toLowerCase_def lower_char_def upper_letters_def lower_letters_def)

lemma notes_language: "detectLanguage plain_platform ''notes.txt'' = ''text''"
  by (simp add: detectLanguage_def plain_platform_def
        langMap_def toLowerCase_def lower_char_def upper_letters_def lower_letters_def)

lemma notes_pass:
  "indexRepository plain_platform notes_world ''owner/name'' ''main'' readme_db
     = (Inr (),
        readme_db\<lparr>
          repositories :=
            [\<lparr> r_id = 1, r_name = ''owner/name'', r_lastCommitHash = Some ''c0ffee'',
               r_lastIndexed = Some ''2025-01-01T00:00:00.000Z'', r_totalChunks = 1 \<rparr>],
          chunks :=
            [\<lparr> ch_id = ''notes.txt:1-1:block'', ch_repositoryId = 1, ch_filePath = ''notes.txt'',
               ch_content = ''hello'', ch_chunkType = ''block'', ch_language = ''text'',
               ch_startLine = 1, ch_endLine = 1, ch_embedding = [],
               ch_termFreq = calculateTermFrequencies ''hello'' \<rparr>],
          chunks_fts := chunks_fts readme_db @
            [\<lparr> f_id = ''notes.txt:1-1:block'', f_content = ''hello'',
               f_filePath = ''notes.txt'', f_symbolNames = [] \<rparr>] \<rparr>)"
  by (simp add: indexRepository_def index_pass_def notes_world_def quiet_world_def
        getOrCreateRepository_def clear_existing_def readme_db_def notes_language notes_chunks
        store_chunk_def generateEmbedding_def update_metadata_def Let_def
        lower_char_def upper_letters_def lower_letters_def)


lemma notes_pass_update_fails:
  "indexRepository plain_platform notes_world_update_fails ''owner/name'' ''main'' readme_db
     = (Inl StorageFailure,
        readme_db\<lparr>
          chunks :=
            [\<lparr> ch_id = ''notes.txt:1-1:block'', ch_repositoryId = 1, ch_filePath = ''notes.txt'',
               ch_content = ''hello'', ch_chunkType = ''block'', ch_language = ''text'',
               ch_startLine = 1, ch_endLine = 1, ch_embedding = [],
               ch_termFreq = calculateTermFrequencies ''hello'' \<rparr>],
          chunks_fts := chunks_fts readme_db @
            [\<lparr> f_id = ''notes.txt:1-1:block'', f_content = ''hello'',
               f_filePath = ''notes.txt'', f_symbolNames = [] \<rparr>] \<rparr>)"
  by (simp add: indexRepository_def index_pass_def notes_world_update_fails_def notes_world_def
        quiet_world_def
        getOrCreateRepository_def clear_existing_def readme_db_def notes_language notes_chunks
        store_chunk_def generateEmbedding_def update_metadata_def Let_def
        lower_char_def upper_letters_def lower_letters_def)

lemma basic_offline_pass:
  "indexRepository_basic basic_offline_world ''owner/name'' ''main'' basic_indexed_db
     = (Inl SourceUnavailable, basic_indexed_db)"
  by (simp add: indexRepository_basic_def getOrCreateRepository_basic_def index_pass_basic_def
        basic_offline_world_def basic_quiet_world_def basic_indexed_db_def)

lemma indexRepository_basic_succeeds:
  assumes "\<And>n. \<not> bw_db_fault w n" "bw_rm_ok w 0" "bw_rm_ok w 1"
      and "bw_clone w repoName branch = Some co"
  shows "fst (indexRepository_basic w repoName branch db) = Inr ()"
proof -
  obtain r1 db1 n1 where g: "getOrCreateRepository_basic w repoName (db, 0) = (r1, (db1, n1))"
    by (metis prod.exhaust)
  from assms(1) g obtain repoId where r1: "r1 = Inr repoId"
    by (auto simp: getOrCreateRepository_basic_def Let_def split: option.splits if_splits)
  obtain k db2 n2 where i: "index_files_basic w repoId (bco_files co) 0
      (db1\<lparr> b_files := filter (\<lambda>f. fi_repositoryId f \<noteq> repoId) (b_files db1) \<rparr>, n1 + 1)
        = (k, (db2, n2))"
    by (metis prod.exhaust)
  have "index_pass_basic w repoId repoName branch (db1, n1)
          = (Inr (), update_metadata_basic repoId (bco_head co) (bw_now w) k db2)"
    using assms i by (simp add: index_pass_basic_def Let_def)
  then show ?thesis by (simp add: indexRepository_basic_def g r1)
qed

lemma basic_quiet_pass_ok:
  "fst (indexRepository_basic basic_quiet_world ''owner/name'' ''main'' basic_indexed_db) = Inr ()"
  by (rule indexRepository_basic_succeeds) (simp_all add: basic_quiet_world_def)

text \<open>
  C2. The pass deletes the chunk rows of the repository first; the statement that should
  delete their symbols then selects the chunk ids of the repository from the table that
  no longer holds them, and deletes nothing (lemma \<open>clear_existing_keeps\<close>; no pass ever
  removes a symbol row, lemma \<open>index_pass_keeps_symbols\<close>). Re-indexing \<open>owner/name\<close> at a
  commit where \<open>README.md\<close> is replaced by \<open>notes.txt\<close> succeeds, the only chunk left is the
  new one, and the symbol row of the replaced snapshot is still there, pointing at the
  deleted chunk \<open>README.md:1-1:section\<close>.
\<close>

theorem reindex_leaves_stale_symbols:
  "fst (indexRepository plain_platform notes_world ''owner/name'' ''main'' readme_db) = Inr ()
   \<and> map ch_id (chunks (snd (indexRepository plain_platform notes_world ''owner/name'' ''main'' readme_db)))
       = [''notes.txt:1-1:block'']
   \<and> map sy_chunkId
         (symbols_of_snapshot (chunks readme_db)
            (snd (indexRepository plain_platform notes_world ''owner/name'' ''main'' readme_db)))
       = [''README.md:1-1:section'']"
  unfolding notes_pass by (simp add: symbols_of_snapshot_def readme_db_def)

text \<open>
  C4. When an indexing pass ends in an error that comes from the source (clone, log) or
  from the storage (also from reading a file), the commit stored for every repository name
  is what it was before the pass, in both index classes: the statement that writes the
  commit is the last one of the pass, and every such error leaves the pass before it.
  The only error raised after that statement is the failure to remove the temporary
  directory.
\<close>

theorem failed_pass_keeps_commit:
  "(indexRepository P w repoName branch db = (Inl e, db') \<and> e \<noteq> CleanupFailure
      \<longrightarrow> stored_commit db' name = stored_commit db name)
   \<and> (indexRepository_basic bw repoName branch bdb = (Inl e', bdb') \<and> e' \<noteq> CleanupFailure
      \<longrightarrow> stored_commit_basic bdb' name = stored_commit_basic bdb name)"
  using indexRepository_failure_keeps_commit[of P w repoName branch db e db' name]
    indexRepository_basic_failure_keeps_commit[of bw repoName branch bdb e' bdb' name]
  by blast

theorem failed_pass_keeps_commit_witness:
  "fst (indexRepository plain_platform notes_world_update_fails ''owner/name'' ''main'' readme_db)
     = Inl StorageFailure
   \<and> stored_commit
        (snd (indexRepository plain_platform notes_world_update_fails ''owner/name'' ''main'' readme_db))
        ''owner/name'' = Some ''abc123''
   \<and> fst (indexRepository_basic basic_offline_world ''owner/name'' ''main'' basic_indexed_db)
     = Inl SourceUnavailable
   \<and> stored_commit_basic
        (snd (indexRepository_basic basic_offline_world ''owner/name'' ''main'' basic_indexed_db))
        ''owner/name'' = Some ''abc123''"
proof -
  have a: "stored_commit readme_db ''owner/name'' = Some ''abc123''"
    by (simp add: stored_commit_def readme_db_def)
  have b: "stored_commit_basic basic_indexed_db ''owner/name'' = Some ''abc123''"
    by (simp add: stored_commit_basic_def basic_indexed_db_def)
  from failed_pass_keeps_commit[of plain_platform notes_world_update_fails "''owner/name''" "''main''"
      readme_db StorageFailure _ "''owner/name''" basic_offline_world basic_indexed_db
      SourceUnavailable basic_indexed_db]
    notes_pass_update_fails basic_offline_pass
  have "stored_commit
        (snd (indexRepository plain_platform notes_world_update_fails ''owner/name'' ''main'' readme_db))
        ''owner/name'' = stored_commit readme_db ''owner/name''"
    and "stored_commit_basic
        (snd (indexRepository_basic basic_offline_world ''owner/name'' ''main'' basic_indexed_db))
        ''owner/name'' = stored_commit_basic basic_indexed_db ''owner/name''"
    by simp_all
  then show ?thesis
    using a b by (simp add: notes_pass_update_fails basic_offline_pass)
qed

text \<open>
  C5. When its query succeeds, \<open>needsUpdate\<close> answers true if no commit is stored for the
  repository, true if the source provider reports no commit, and otherwise whether the
  stored commit differs from the reported one. After a successful \<open>indexRepository\<close> that
  cloned the branch at commit \<open>h\<close> it therefore answers false while the provider reports
  \<open>h\<close>, and true as soon as the provider reports another commit.
\<close>

theorem needsUpdate_staleness:
  assumes "\<not> bw_db_fault w 0"
  shows "(stored_commit_basic db repoName = None \<longrightarrow> needsUpdate w repoName branch db = Inr True)
       \<and> (bw_commit w repoName branch = None \<longrightarrow> needsUpdate w repoName branch db = Inr True)
       \<and> (\<forall>stored current.
            stored_commit_basic db repoName = Some stored \<and> stored \<noteq> []
            \<and> bw_commit w repoName branch = Some current
            \<longrightarrow> needsUpdate w repoName branch db = Inr (stored \<noteq> current))
       \<and> (\<forall>w0 db0 co h current.
            indexRepository_basic w0 repoName branch db0 = (Inr (), db)
            \<and> bw_clone w0 repoName branch = Some co \<and> bco_head co = Some h \<and> h \<noteq> []
            \<and> bw_commit w repoName branch = Some current
            \<longrightarrow> needsUpdate w repoName branch db = Inr (h \<noteq> current))"
proof -
  have never: "stored_commit_basic db repoName = None \<longrightarrow> needsUpdate w repoName branch db = Inr True"
    using assms by (auto simp: needsUpdate_def stored_commit_basic_def split: option.splits)
  have unknown: "bw_commit w repoName branch = None \<longrightarrow> needsUpdate w repoName branch db = Inr True"
    using assms by (auto simp: needsUpdate_def split: option.splits)
  have compare: "needsUpdate w repoName branch db = Inr (stored \<noteq> current)"
    if "stored_commit_basic db repoName = Some stored" "stored \<noteq> []"
       "bw_commit w repoName branch = Some current" for stored current
    using assms that by (auto simp: needsUpdate_def stored_commit_basic_def split: option.splits)
  have after: "needsUpdate w repoName branch db = Inr (h \<noteq> current)"
    if "indexRepository_basic w0 repoName branch db0 = (Inr (), db)"
       "bw_clone w0 repoName branch = Some co" "bco_head co = Some h" "h \<noteq> []"
       "bw_commit w repoName branch = Some current" for w0 db0 co h current
  proof -
    from indexRepository_basic_success_commit[OF that(1)] that(2,3)
    have "stored_commit_basic db repoName = Some h" by auto
    from compare[OF this that(4,5)] show ?thesis .
  qed
  from never unknown compare after show ?thesis by blast
qed

theorem needsUpdate_staleness_witness:
  "\<not> bw_db_fault basic_quiet_world 0
   \<and> \<not> bw_db_fault basic_moved_world 0
   \<and> fst (indexRepository_basic basic_quiet_world ''owner/name'' ''main'' basic_indexed_db) = Inr ()
   \<and> needsUpdate basic_quiet_world ''owner/name'' ''main''
        (snd (indexRepository_basic basic_quiet_world ''owner/name'' ''main'' basic_indexed_db))
       = Inr False
   \<and> needsUpdate basic_moved_world ''owner/name'' ''main''
        (snd (indexRepository_basic basic_quiet_world ''owner/name'' ''main'' basic_indexed_db))
       = Inr True
   \<and> needsUpdate basic_quiet_world ''owner/name'' ''main'' basic_empty_db = Inr True"
proof -
  let ?db = "snd (indexRepository_basic basic_quiet_world ''owner/name'' ''main'' basic_indexed_db)"
  have q: "\<not> bw_db_fault basic_quiet_world 0" by (simp add: basic_quiet_world_def)
  have m: "\<not> bw_db_fault basic_moved_world 0"
    by (simp add: basic_moved_world_def basic_quiet_world_def)
  have ok: "indexRepository_basic basic_quiet_world ''owner/name'' ''main'' basic_indexed_db = (Inr (), ?db)"
    using basic_quiet_pass_ok by (metis prod.collapse)
  have c: "bw_clone basic_quiet_world ''owner/name'' ''main''
             = Some \<lparr> bco_head = Some ''c0ffee'',
                bco_files = [(''index.html'', Some title_html),
                             (''styles.css'', Some ''body { color: red }'')] \<rparr>"
    by (simp add: basic_quiet_world_def)
  have same: "bw_commit basic_quiet_world ''owner/name'' ''main'' = Some ''c0ffee''"
    by (simp add: basic_quiet_world_def)
  have moved: "bw_commit basic_moved_world ''owner/name'' ''main'' = Some ''beef01''"
    by (simp add: basic_moved_world_def basic_quiet_world_def)
  have h: "bco_head \<lparr> bco_head = Some ''c0ffee'',
                bco_files = [(''index.html'', Some title_html),
                             (''styles.css'', Some ''body { color: red }'')] \<rparr> = Some ''c0ffee''"
    by simp
  have ne: "''c0ffee'' \<noteq> []" by simp
  have 1: "needsUpdate basic_quiet_world ''owner/name'' ''main'' ?db = Inr (''c0ffee'' \<noteq> ''c0ffee'')"
    using needsUpdate_staleness[OF q, THEN conjunct2, THEN conjunct2, THEN conjunct2, rule_format,
        OF conjI[OF ok conjI[OF c conjI[OF h conjI[OF ne same]]]]] .
  have 2: "needsUpdate basic_moved_world ''owner/name'' ''main'' ?db = Inr (''c0ffee'' \<noteq> ''beef01'')"
    using needsUpdate_staleness[OF m, THEN conjunct2, THEN conjunct2, THEN conjunct2, rule_format,
        OF conjI[OF ok conjI[OF c conjI[OF h conjI[OF ne moved]]]]] .
  have none: "stored_commit_basic basic_empty_db ''owner/name'' = None"
    by (simp add: stored_commit_basic_def basic_empty_db_def)
  have 3: "needsUpdate basic_quiet_world ''owner/name'' ''main'' basic_empty_db = Inr True"
    using needsUpdate_staleness[OF q, THEN conjunct1, rule_format, OF none] .
  have r1: "needsUpdate basic_quiet_world ''owner/name'' ''main'' ?db = Inr False"
    using 1 by simp
  have r2: "needsUpdate basic_moved_world ''owner/name'' ''main'' ?db = Inr True"
    using 2 by simp
  from q m basic_quiet_pass_ok r1 r2 3 show ?thesis by (intro conjI)
qed


section \<open>Properties of the file scoring\<close>

lemma js_add_add: "js_add (js_add s a) b = js_add s (a + b)"
  by (cases s) auto

lemma js_add_zero: "js_add s 0 = s"
  by (cases s) auto

lemma fst_boost: "fst (boost a why sr) = js_add (fst sr) a"
  by (simp add: boost_def)

lemma fst_quote_checks:
  "fst (foldl (quote_check (toLowerCase (fi_content f))) sr qs)
     = js_add (fst sr) (sum_list (map (phrase_bonus f) qs))"
  by (induction qs arbitrary: sr)
     (auto simp: quote_check_def phrase_bonus_def fst_boost js_add_add js_add_zero)

lemma fst_quoted_text_boost:
  "fst (quoted_text_boost T f sr) = js_add (fst sr) (quoted_bonus T f)"
  by (simp add: quoted_text_boost_def quoted_bonus_def fst_quote_checks)

lemma fst_word_checks:
  "fst (foldl (word_check c) sr ws)
     = js_add (fst sr) (sum_list (map (\<lambda>w. if length w > 3 \<and> str_includes c w then 0.3 else 0) ws))"
  by (induction ws arbitrary: sr)
     (auto simp: word_check_def fst_boost js_add_add js_add_zero)

lemma word_boost_shift:
  "\<exists>k. \<forall>sr. fst (word_boost T f sr) = js_add (fst sr) k"
  by (cases "isChangeTask (toLowerCase T)")
     (auto simp: word_boost_def fst_word_checks intro: exI[of _ 0] simp: js_add_zero)

lemma kind_boost_shift:
  "\<exists>k. \<forall>sr. fst (kind_boost tlow f sr) = js_add (fst sr) k"
proof -
  let ?a = "if str_includes tlow ''component'' \<and> fi_fileType f = ''component'' then 0.3 else (0::real)"
  let ?b = "if str_includes tlow ''api'' \<and> fi_fileType f = ''api'' then 0.3 else (0::real)"
  let ?c = "if str_includes tlow ''page'' \<and> fi_fileType f = ''page'' then 0.3 else (0::real)"
  have "\<forall>sr. fst (kind_boost tlow f sr) = js_add (fst sr) (?a + ?b + ?c)"
    by (auto simp: kind_boost_def Let_def fst_boost js_add_add js_add_zero)
  then show ?thesis by blast
qed

lemma config_boost_shift:
  "\<exists>k. \<forall>sr. fst (config_boost f sr) = js_add (fst sr) k"
proof -
  have "\<forall>sr. fst (config_boost f sr) = js_add (fst sr) (if fi_path f = ''package.json'' then 0.2 else 0)"
    by (auto simp: config_boost_def fst_boost js_add_zero)
  then show ?thesis by blast
qed

lemma score_file_split:
  "fst (score_file E T f) = js_add (fst (score_without_quoted E T f)) (quoted_bonus T f)"
proof -
  define s0 where "s0 = html_boost f (style_boost (toLowerCase T) f
                          (ui_boost (toLowerCase T) f (semantic_score E f)))"
  obtain kw where kw: "\<And>sr. fst (word_boost T f sr) = js_add (fst sr) kw"
    using word_boost_shift by blast
  obtain kk where kk: "\<And>sr. fst (kind_boost (toLowerCase T) f sr) = js_add (fst sr) kk"
    using kind_boost_shift by blast
  obtain kc where kc: "\<And>sr. fst (config_boost f sr) = js_add (fst sr) kc"
    using config_boost_shift by blast
  have "fst (score_file E T f)
          = js_add (js_add (js_add (js_add (fst s0) (quoted_bonus T f)) kw) kk) kc"
    by (simp add: score_file_def Let_def s0_def kc kk kw fst_quoted_text_boost)
  moreover have "fst (score_without_quoted E T f) = js_add (js_add (js_add (fst s0) kw) kk) kc"
    by (simp add: score_without_quoted_def Let_def s0_def kc kk kw)
  ultimately show ?thesis by (simp add: js_add_add add_ac)
qed

lemma task_title_quotes: "quotesToCheck task_title = [quoted_ben]"
  by (simp add: quotesToCheck_def quotedMatches_def task_title_def quoted_ben_def isChangeTask_def
      toLowerCase_def lower_char_def upper_letters_def lower_letters_def)

lemma task_rename_quotes: "quotesToCheck task_rename = [CHR 0x27 # ''Old Name'' @ [CHR 0x27]]"
  by (simp add: quotesToCheck_def quotedMatches_def task_rename_def isChangeTask_def
      toLowerCase_def lower_char_def upper_letters_def lower_letters_def)

lemma cleanQuote_ben: "cleanQuote quoted_ben = ''ben tossell''"
  by (simp add: cleanQuote_def quoted_ben_def toLowerCase_def lower_char_def
      upper_letters_def lower_letters_def)

lemma index_html_has_ben:
  "str_includes (toLowerCase (fi_content index_html_row)) ''ben tossell''"
  by (simp add: index_html_row_def title_html_def toLowerCase_def lower_char_def
      upper_letters_def lower_letters_def)

lemma styles_css_lacks_ben:
  "\<not> str_includes (toLowerCase (fi_content styles_css_row)) ''ben tossell''"
  by (simp add: styles_css_row_def toLowerCase_def lower_char_def upper_letters_def lower_letters_def)

lemma task_rename_bonus: "quoted_bonus task_rename index_html_row = 0"
  by (simp add: quoted_bonus_def task_rename_quotes phrase_bonus_def cleanQuote_def
       index_html_row_def title_html_def toLowerCase_def lower_char_def
       upper_letters_def lower_letters_def)

text \<open>
  C6, as the code has it. The exact-quoted-text block adds to a file's score the sum, over
  the quoted phrases it checks, of 2.0 for each phrase that the lower-cased content
  contains. It checks every quoted phrase of the task, but only the first one when the task
  contains "change", "replace" or "update". The phrase \<open>'Ben Tossell'\<close>, when checked, gives
  2.0 exactly to the files whose lower-cased content contains \<open>ben tossell\<close> and nothing to
  the others; when it is the only phrase checked, that is the whole bonus term.
\<close>

theorem quoted_text_bonus:
  "fst (score_file E T f) = js_add (fst (score_without_quoted E T f)) (quoted_bonus T f)
   \<and> quoted_bonus T f = sum_list (map (phrase_bonus f) (quotesToCheck T))
   \<and> phrase_bonus f quoted_ben
       = (if str_includes (toLowerCase (fi_content f)) ''ben tossell'' then 2 else 0)
   \<and> (quotesToCheck T = [quoted_ben]
        \<longrightarrow> quoted_bonus T f
            = (if str_includes (toLowerCase (fi_content f)) ''ben tossell'' then 2 else 0))
   \<and> quotesToCheck T
       = (if isChangeTask (toLowerCase T) then take 1 (quotedMatches T) else quotedMatches T)"
proof -
  have ben: "phrase_bonus f quoted_ben
       = (if str_includes (toLowerCase (fi_content f)) ''ben tossell'' then 2 else 0)"
    by (simp add: phrase_bonus_def cleanQuote_ben)
  have only: "quotesToCheck T = [quoted_ben]
        \<longrightarrow> quoted_bonus T f
            = (if str_includes (toLowerCase (fi_content f)) ''ben tossell'' then 2 else 0)"
    by (simp add: quoted_bonus_def ben)
  have which: "quotesToCheck T
       = (if isChangeTask (toLowerCase T) then take 1 (quotedMatches T) else quotedMatches T)"
    by (simp add: quotesToCheck_def)
  from score_file_split[of E T f] ben only which show ?thesis
    by (simp add: quoted_bonus_def)
qed

theorem quoted_text_bonus_witness:
  "quotesToCheck task_title = [quoted_ben]
   \<and> quoted_bonus task_title index_html_row = 2
   \<and> quoted_bonus task_title styles_css_row = 0
   \<and> fst (score_file [1, 0, 0] task_title index_html_row)
       = js_add (fst (score_without_quoted [1, 0, 0] task_title index_html_row)) 2"
proof -
  note t = quoted_text_bonus[of "[1, 0, 0]" task_title]
  have a: "quoted_bonus task_title index_html_row = 2"
    using t[of index_html_row] task_title_quotes index_html_has_ben by simp
  have b: "quoted_bonus task_title styles_css_row = 0"
    using t[of styles_css_row] task_title_quotes styles_css_lacks_ben by simp
  have c: "fst (score_file [1, 0, 0] task_title index_html_row)
       = js_add (fst (score_without_quoted [1, 0, 0] task_title index_html_row)) 2"
    using t[of index_html_row] a by simp
  from task_title_quotes a b c show ?thesis by (intro conjI)
qed

theorem quoted_text_bonus_counterexample:
  "str_includes task_rename quoted_ben
   \<and> str_includes (toLowerCase (fi_content index_html_row)) ''ben tossell''
   \<and> quoted_bonus task_rename index_html_row = 0
   \<and> fst (score_file [1, 0, 0] task_rename index_html_row)
       = fst (score_without_quoted [1, 0, 0] task_rename index_html_row)"
proof -
  have a: "str_includes task_rename quoted_ben"
    by (simp add: task_rename_def quoted_ben_def)
  have "fst (score_file [1, 0, 0] task_rename index_html_row)
       = fst (score_without_quoted [1, 0, 0] task_rename index_html_row)"
    by (simp add: score_file_split task_rename_bonus js_add_zero)
  with a index_html_has_ben task_rename_bonus show ?thesis by (intro conjI)
qed

end
